theory Spec2Isabelle
  imports Complex_Main "HOL-Library.AList" "HOL-Library.Log_Nat"
begin

section \<open>JavaScript values and objects\<close>

text \<open>
  The popup keeps its data in plain JavaScript objects and in JSON stores. A value is
  one of the JavaScript primitives, an array, or an object given by its own enumerable
  properties in insertion order. A number is an IEEE 754 double: \<open>JNum q\<close> is the finite
  double whose value is the rational \<open>q\<close>, \<open>JInf True\<close> and \<open>JInf False\<close> are plus and minus
  Infinity, \<open>JNaN\<close> is NaN. The two zeros are not told apart.
\<close>

datatype jval =
    JUndefined
  | JNull
  | JBool bool
  | JNum rat
  | JNaN
  | JInf bool
  | JStr string
  | JArr "jval list"
  | JObj "(string \<times> jval) list"

type_synonym obj = "(string \<times> jval) list"

datatype error = TypeError

text \<open>Property operations on an object: \<open>o.hasOwnProperty(k)\<close>, \<open>o[k]\<close>, \<open>o[k] = v\<close>,
  \<open>delete o[k]\<close> and \<open>Object.assign(target, source)\<close>.\<close>

definition hasOwnProperty :: "obj \<Rightarrow> string \<Rightarrow> bool" where
  "hasOwnProperty ob k = (map_of ob k \<noteq> None)"

definition getp :: "obj \<Rightarrow> string \<Rightarrow> jval" where
  "getp ob k = (case map_of ob k of None \<Rightarrow> JUndefined | Some v \<Rightarrow> v)"

definition setp :: "string \<Rightarrow> jval \<Rightarrow> obj \<Rightarrow> obj" where
  "setp k v ob = AList.update k v ob"

definition deletep :: "string \<Rightarrow> obj \<Rightarrow> obj" where
  "deletep k ob = AList.delete k ob"

definition assign :: "obj \<Rightarrow> obj \<Rightarrow> obj" where
  "assign target source = fold (\<lambda>(k, v). setp k v) source target"

text \<open>A JavaScript object has each property name once.\<close>

definition uniqueKeys :: "obj \<Rightarrow> bool" where
  "uniqueKeys ob = distinct (map fst ob)"

text \<open>Decimal names of array indices.\<close>

definition digit :: "nat \<Rightarrow> char" where
  "digit d = char_of (48 + d)"

fun dec :: "nat \<Rightarrow> string" where
  "dec n = (if n < 10 then [digit n] else dec (n div 10) @ [digit (n mod 10)])"

declare dec.simps [simp del]

text \<open>The own enumerable properties of an arbitrary value, as \<open>Object.assign\<close> and
  \<open>Object.keys\<close> see them: the entries of an object, the indexed elements of an array,
  the indexed characters of a string, and nothing for the other primitives.\<close>

fun ownProps :: "jval \<Rightarrow> obj" where
  "ownProps (JObj ps) = ps"
| "ownProps (JArr xs) = zip (map dec [0..<length xs]) xs"
| "ownProps (JStr s) = zip (map dec [0..<length s]) (map (\<lambda>c. JStr [c]) s)"
| "ownProps _ = []"

text \<open>\<open>v.hasOwnProperty(k)\<close> and \<open>v[k]\<close> on an arbitrary value: both throw a TypeError on
  \<open>null\<close> and \<open>undefined\<close>; arrays and strings own \<open>length\<close> besides their indices.\<close>

fun hasOwn :: "jval \<Rightarrow> string \<Rightarrow> error + bool" where
  "hasOwn JUndefined k = Inl TypeError"
| "hasOwn JNull k = Inl TypeError"
| "hasOwn (JArr xs) k = Inr (k = ''length'' \<or> hasOwnProperty (ownProps (JArr xs)) k)"
| "hasOwn (JStr s) k = Inr (k = ''length'' \<or> hasOwnProperty (ownProps (JStr s)) k)"
| "hasOwn v k = Inr (hasOwnProperty (ownProps v) k)"

fun getv :: "jval \<Rightarrow> string \<Rightarrow> error + jval" where
  "getv JUndefined k = Inl TypeError"
| "getv JNull k = Inl TypeError"
| "getv (JArr xs) k =
     Inr (if k = ''length'' then JNum (of_nat (length xs)) else getp (ownProps (JArr xs)) k)"
| "getv (JStr s) k =
     Inr (if k = ''length'' then JNum (of_nat (length s)) else getp (ownProps (JStr s)) k)"
| "getv v k = Inr (getp (ownProps v) k)"

text \<open>
  Rounding to double precision. \<open>pow2 k\<close> is the power of two with an integer exponent,
  \<open>ilog2 a\<close> is the integer part of the binary logarithm of a positive rational, and
  \<open>roundHalfEven\<close> rounds to the nearest integer, a tie to the even one. \<open>double q\<close> is
  the double nearest to the rational \<open>q\<close>: 53 significant bits in the normal range, the
  fixed step \<open>2^-1074\<close> below it, and Infinity from \<open>2^1024\<close> on.
\<close>

datatype number = Finite rat | Infinite bool | NotANumber

definition pow2 :: "int \<Rightarrow> rat" where
  "pow2 k = (if 0 \<le> k then 2 ^ nat k else 1 / 2 ^ nat (- k))"

definition ilog2 :: "rat \<Rightarrow> int" where
  "ilog2 a = (if 1 \<le> a then bitlen \<lfloor>a\<rfloor> - 1 else - bitlen (\<lceil>1 / a\<rceil> - 1))"

definition roundHalfEven :: "rat \<Rightarrow> int" where
  "roundHalfEven m =
     (let f = \<lfloor>m\<rfloor>; d = m - of_int f
      in if d < 1 / 2 then f else if 1 / 2 < d then f + 1 else if even f then f else f + 1)"

definition double :: "rat \<Rightarrow> number" where
  "double q =
     (if q = 0 then Finite 0
      else
        (let a = \<bar>q\<bar>;
             x = max (ilog2 a - 52) (- 1074);
             v = of_int (roundHalfEven (a / pow2 x)) * pow2 x
         in if pow2 1024 \<le> v then Infinite (0 < q)
            else Finite (if 0 < q then v else - v)))"

text \<open>Truthiness, and the conversion of a value in a numeric position to a number. Of
  the strings, the empty one and the strings of decimal digits (article ids) are
  converted, to the double nearest to their value; any other string, and every array and
  object, counts as NaN: the modelled code puts a time stamp, a price, a length or an
  article id there.\<close>

definition isDigit :: "char \<Rightarrow> bool" where
  "isDigit c = ((48::nat) \<le> of_char c \<and> of_char c \<le> (57::nat))"

definition digitsValue :: "string \<Rightarrow> int" where
  "digitsValue s = foldl (\<lambda>a c. 10 * a + (of_char c - 48)) 0 s"

definition strToNumber :: "string \<Rightarrow> number" where
  "strToNumber s = (if list_all isDigit s then double (of_int (digitsValue s)) else NotANumber)"

fun truthy :: "jval \<Rightarrow> bool" where
  "truthy JUndefined = False"
| "truthy JNull = False"
| "truthy (JBool b) = b"
| "truthy (JNum n) = (n \<noteq> 0)"
| "truthy JNaN = False"
| "truthy (JInf s) = True"
| "truthy (JStr s) = (s \<noteq> [])"
| "truthy (JArr xs) = True"
| "truthy (JObj ps) = True"

fun toNumber :: "jval \<Rightarrow> number" where
  "toNumber (JNum n) = Finite n"
| "toNumber (JInf s) = Infinite s"
| "toNumber JNull = Finite 0"
| "toNumber (JBool b) = Finite (if b then 1 else 0)"
| "toNumber (JStr s) = strToNumber s"
| "toNumber _ = NotANumber"

fun ofNumber :: "number \<Rightarrow> jval" where
  "ofNumber (Finite q) = JNum q"
| "ofNumber (Infinite s) = JInf s"
| "ofNumber NotANumber = JNaN"

text \<open>Arithmetic on numbers: the exact result is rounded to a double; NaN and the
  infinities follow IEEE 754. A comparison with NaN is false.\<close>

fun sub64 :: "number \<Rightarrow> number \<Rightarrow> number" where
  "sub64 (Finite x) (Finite y) = double (x - y)"
| "sub64 (Finite x) (Infinite t) = Infinite (\<not> t)"
| "sub64 (Infinite s) (Finite y) = Infinite s"
| "sub64 (Infinite s) (Infinite t) = (if s = t then NotANumber else Infinite s)"
| "sub64 _ _ = NotANumber"

fun mul64 :: "number \<Rightarrow> number \<Rightarrow> number" where
  "mul64 (Finite x) (Finite y) = double (x * y)"
| "mul64 (Finite x) (Infinite t) = (if x = 0 then NotANumber else Infinite (t = (0 < x)))"
| "mul64 (Infinite s) (Finite y) = (if y = 0 then NotANumber else Infinite (s = (0 < y)))"
| "mul64 (Infinite s) (Infinite t) = Infinite (s = t)"
| "mul64 _ _ = NotANumber"

fun div64 :: "number \<Rightarrow> number \<Rightarrow> number" where
  "div64 (Finite x) (Finite y) =
     (if y = 0 then (if x = 0 then NotANumber else Infinite (0 < x)) else double (x / y))"
| "div64 (Finite x) (Infinite t) = Finite 0"
| "div64 (Infinite s) (Finite y) = Infinite (s = (0 \<le> y))"
| "div64 _ _ = NotANumber"

fun abs64 :: "number \<Rightarrow> number" where
  "abs64 (Finite x) = Finite \<bar>x\<bar>"
| "abs64 (Infinite s) = Infinite True"
| "abs64 NotANumber = NotANumber"

fun less64 :: "number \<Rightarrow> number \<Rightarrow> bool" where
  "less64 (Finite x) (Finite y) = (x < y)"
| "less64 (Finite x) (Infinite t) = t"
| "less64 (Infinite s) (Finite y) = (\<not> s)"
| "less64 (Infinite s) (Infinite t) = (\<not> s \<and> t)"
| "less64 _ _ = False"

text \<open>The operators \<open>-\<close>, \<open>*\<close>, \<open>/\<close>, \<open><\<close>, \<open>>\<close> and \<open>Math.abs\<close> where at least one
  operand is a number, so that both are converted to numbers. \<open>cent\<close> is the literal
  \<open>0.01\<close>. \<open>===\<close> compares primitives by value (NaN equals nothing); the objects and
  arrays the modelled comparisons meet are never one and the same object.\<close>

definition js_sub :: "jval \<Rightarrow> jval \<Rightarrow> jval" where
  "js_sub a b = ofNumber (sub64 (toNumber a) (toNumber b))"

definition js_mul :: "jval \<Rightarrow> jval \<Rightarrow> jval" where
  "js_mul a b = ofNumber (mul64 (toNumber a) (toNumber b))"

definition js_div :: "jval \<Rightarrow> jval \<Rightarrow> jval" where
  "js_div a b = ofNumber (div64 (toNumber a) (toNumber b))"

definition js_lt :: "jval \<Rightarrow> jval \<Rightarrow> bool" where
  "js_lt a b = less64 (toNumber a) (toNumber b)"

definition js_gt :: "jval \<Rightarrow> jval \<Rightarrow> bool" where
  "js_gt a b = less64 (toNumber b) (toNumber a)"

definition js_abs :: "jval \<Rightarrow> jval" where
  "js_abs a = ofNumber (abs64 (toNumber a))"

definition cent :: jval where
  "cent = ofNumber (double (1 / 100))"

fun strictEq :: "jval \<Rightarrow> jval \<Rightarrow> bool" where
  "strictEq JUndefined b = (b = JUndefined)"
| "strictEq JNull b = (b = JNull)"
| "strictEq (JBool x) b = (b = JBool x)"
| "strictEq (JNum x) b = (b = JNum x)"
| "strictEq (JInf s) b = (b = JInf s)"
| "strictEq (JStr x) b = (b = JStr x)"
| "strictEq JNaN b = False"
| "strictEq (JArr xs) b = False"
| "strictEq (JObj ps) b = False"

text \<open>\<open>JSON.parse(JSON.stringify(v))\<close>: a property whose value is \<open>undefined\<close> is left
  out; \<open>undefined\<close> in an array, NaN and the infinities become \<open>null\<close>.\<close>

primrec json :: "jval \<Rightarrow> jval" where
  "json JUndefined = JUndefined"
| "json JNull = JNull"
| "json (JBool b) = JBool b"
| "json (JNum n) = JNum n"
| "json JNaN = JNull"
| "json (JInf s) = JNull"
| "json (JStr s) = JStr s"
| "json (JArr xs) = JArr (map (\<lambda>v. if v = JUndefined then JNull else v) (map json xs))"
| "json (JObj ps) = JObj (filter (\<lambda>p. snd p \<noteq> JUndefined) (map (map_prod (\<lambda>k. k) json) ps))"

definition jsonObj :: "obj \<Rightarrow> obj" where
  "jsonObj ps = filter (\<lambda>p. snd p \<noteq> JUndefined) (map (map_prod (\<lambda>k. k) json) ps)"

section \<open>AutoBid: arbitration of the window auto-bid flag\<close>

text \<open>
  The state a window sees: \<open>sync\<close> is \<open>browser.storage.sync\<close> (a top-level key and the
  object stored under it; the store keeps the object it is given), \<open>settings\<close> is the
  parsed item \<open>settings\<close> of \<open>window.sessionStorage\<close> (\<open>None\<close> when the item is missing),
  \<open>logs\<close> is the parsed item \<open>log:\<close>\<open>articleId\<close> of \<open>window.localStorage\<close> for each
  article id, and \<open>rows\<close> is the data of the rows of the articles table, in row order.
  The window identity \<open>myId\<close> (the result of \<open>AutoBid.getId\<close>) and the clock \<open>now\<close>
  (\<open>Date.now()\<close>) are arguments. An asynchronous function is modelled by the sequence
  of its storage operations; a rejected promise is \<open>Inl\<close>.
\<close>

record world =
  sync :: "string \<rightharpoonup> obj"
  settings :: "obj option"
  logs :: "string \<rightharpoonup> obj list"
  rows :: "obj list"

text \<open>\<open>Popup.updateSetting\<close>: read the session item, drop the old key \<open>simulate\<close>, set
  the key and write the item back as JSON.\<close>

definition updateSetting :: "string \<Rightarrow> jval \<Rightarrow> world \<Rightarrow> world" where
  "updateSetting key val w =
     (let result = (case settings w of None \<Rightarrow> [] | Some r \<Rightarrow> r);
          result = (if hasOwnProperty result ''simulate'' then deletep ''simulate'' result else result);
          result = setp key val result
      in w\<lparr>settings := Some (jsonObj result)\<rparr>)"

definition getLocalState :: "world \<Rightarrow> obj" where
  "getLocalState w =
     (let info = [(''autoBidEnabled'', JBool False), (''simulation'', JBool False)]
      in case settings w of None \<Rightarrow> info | Some result \<Rightarrow> assign info result)"

definition setLocalState :: "jval \<Rightarrow> jval \<Rightarrow> world \<Rightarrow> world" where
  "setLocalState autoBidEnabled simulation w =
     updateSetting ''simulation'' simulation (updateSetting ''autoBidEnabled'' autoBidEnabled w)"

definition getSyncState :: "world \<Rightarrow> obj" where
  "getSyncState w =
     (let info = [(''autoBidEnabled'', JBool False), (''id'', JNull), (''timestamp'', JNull)]
      in case sync w ''SETTINGS'' of
           None \<Rightarrow> info
         | Some settingsInfo \<Rightarrow>
             if hasOwnProperty settingsInfo ''autoBid''
             then assign info (ownProps (getp settingsInfo ''autoBid''))
             else info)"

text \<open>\<open>AutoBid.setSyncState\<close>. In the branch for \<open>null\<close> the entry is deleted from the
  local copy \<open>oldSettings\<close> only; what is written is \<open>newSettings\<close>, as in the source.\<close>

definition setSyncState :: "rat \<Rightarrow> string \<Rightarrow> jval \<Rightarrow> world \<Rightarrow> error + world" where
  "setSyncState now myId autoBidEnabled w =
     (let oldSettings = (case sync w ''SETTINGS'' of None \<Rightarrow> [] | Some s \<Rightarrow> s);
          newSettings = [(''autoBid'', JObj [(''id'', JStr myId),
                                             (''autoBidEnabled'', autoBidEnabled),
                                             (''timestamp'', JNum now)])];
          store = (\<lambda>s. Inr (w\<lparr>sync := (sync w)(''SETTINGS'' \<mapsto> s)\<rparr>))
      in if autoBidEnabled = JNull \<or> autoBidEnabled = JUndefined then
           store newSettings
         else if autoBidEnabled = JBool False then
           (if hasOwnProperty oldSettings ''autoBid'' then
              (case hasOwn (getp oldSettings ''autoBid'') ''id'' of
                 Inl e \<Rightarrow> Inl e
               | Inr hasId \<Rightarrow>
                   if hasId \<and> getv (getp oldSettings ''autoBid'') ''id'' = Inr (JStr myId)
                   then store (deletep ''autoBid'' oldSettings)
                   else store oldSettings)
            else store oldSettings)
         else store (assign (assign [] oldSettings) newSettings))"

text \<open>The advisory built by \<open>AutoBid.getDisableMessage\<close>: two spans around a link whose
  target is \<open>#\<close> followed by the other window's id. The DOM serialisation of the three
  elements is left to the browser; the message is kept as its parts.\<close>

record disable_message =
  spanPre :: string
  linkTarget :: jval
  linkText :: string
  spanPost :: string

definition getDisableMessage :: "jval \<Rightarrow> jval \<Rightarrow> jval \<Rightarrow> disable_message" where
  "getDisableMessage otherId autoBidEnabled simulation =
     (if truthy simulation \<or> autoBidEnabled = JBool False
      then \<lparr>spanPre = ''Automatikmodus ist in einem '', linkTarget = otherId,
            linkText = ''anderen Fenster'', spanPost = '' aktiv.''\<rparr>
      else \<lparr>spanPre = ''Automatikmodus deaktiviert. Er wurde in einem '', linkTarget = otherId,
            linkText = ''anderen Fenster'', spanPost = '' aktiviert.''\<rparr>)"

text \<open>The result of \<open>AutoBid.getState\<close>: the properties of \<open>info\<close>, and its property
  \<open>messageHtml\<close> when it was set.\<close>

record state_info =
  props :: obj
  messageHtml :: "disable_message option"

definition getState :: "string \<Rightarrow> world \<Rightarrow> state_info \<times> world" where
  "getState myId w =
     (let info = [(''autoBidEnabled'', JBool False), (''simulation'', JBool False), (''id'', JNull)];
          localInfo = getLocalState w;
          syncInfo = getSyncState w;
          info = assign info localInfo
      in if hasOwnProperty syncInfo ''id'' \<and> getp syncInfo ''id'' \<noteq> JNull
            \<and> getp syncInfo ''id'' \<noteq> JUndefined \<and> getp syncInfo ''id'' \<noteq> JStr myId
         then
           (let msg = getDisableMessage (getp syncInfo ''id'') (getp info ''autoBidEnabled'')
                        (getp info ''simulation'')
            in if getp info ''simulation'' = JBool False \<or> getp info ''autoBid'' = JBool True
               then (\<lparr>props = setp ''autoBidEnabled'' (JBool False) info, messageHtml = Some msg\<rparr>,
                     setLocalState (JBool False) JUndefined w)
               else (\<lparr>props = info, messageHtml = Some msg\<rparr>, w))
         else (\<lparr>props = info, messageHtml = None\<rparr>, w))"

text \<open>\<open>AutoBid.renderState\<close> reads the state and draws it; only the effect of the read on
  the stores is kept. \<open>AutoBid.setState\<close> is called with the two booleans of the click
  event; a rejected \<open>setSyncState\<close> is logged and nothing is rendered.\<close>

definition renderState :: "string \<Rightarrow> world \<Rightarrow> world" where
  "renderState myId w = snd (getState myId w)"

definition setState :: "rat \<Rightarrow> string \<Rightarrow> bool \<Rightarrow> bool \<Rightarrow> world \<Rightarrow> world" where
  "setState now myId autoBidEnabled simulation w =
     (let w1 = setLocalState (JBool autoBidEnabled) (JBool simulation) w
      in if simulation = False then
           (case setSyncState now myId (JBool autoBidEnabled) w1 of
              Inr w2 \<Rightarrow> renderState myId w2
            | Inl e \<Rightarrow> w1)
         else renderState myId w1)"

text \<open>\<open>AutoBid.removeDeadAutoBid\<close>, with its age test
  \<open>(Date.now() - syncState.timestamp)/1000 > 300\<close>.\<close>

definition removeDeadAutoBid :: "rat \<Rightarrow> string \<Rightarrow> world \<Rightarrow> error + world" where
  "removeDeadAutoBid now myId w =
     (let syncState = getSyncState w
      in if hasOwnProperty syncState ''timestamp'' \<and> getp syncState ''timestamp'' \<noteq> JNull
            \<and> getp syncState ''timestamp'' \<noteq> JUndefined
         then (if js_gt (js_div (js_sub (JNum now) (getp syncState ''timestamp'')) (JNum 1000))
                        (JNum 300)
               then setSyncState now myId JNull w
               else Inr w)
         else Inr w)"

text \<open>\<open>AutoBid.checkChangeIsRelevant\<close>. \<open>beWindowId\<close> is the static class variable, \<open>null\<close>
  until \<open>getId\<close> has run; the class always owns the property. \<open>newValue.length > 0\<close>
  reads the property \<open>length\<close> of the new value.\<close>

definition checkChangeIsRelevant :: "string option \<Rightarrow> obj \<Rightarrow> error + bool" where
  "checkChangeIsRelevant beWindowId changeInfo =
     (if \<not> hasOwnProperty changeInfo ''newValue'' then Inr True
      else
        (let newValue = getp changeInfo ''newValue''
         in case getv newValue ''length'' of
              Inl e \<Rightarrow> Inl e
            | Inr len \<Rightarrow>
                if js_gt len (JNum 0) then
                  (case getv newValue ''autoBid'' of
                     Inl e \<Rightarrow> Inl e
                   | Inr autoBid \<Rightarrow>
                       (case getv autoBid ''id'' of
                          Inl e \<Rightarrow> Inl e
                        | Inr i \<Rightarrow>
                            if i = (case beWindowId of None \<Rightarrow> JNull | Some s \<Rightarrow> JStr s)
                            then Inr False else Inr True))
                else Inr True))"

section \<open>Article: stored records, logs and the articles table\<close>

text \<open>
  An article is an object: the properties set by its constructor and whatever
  \<open>Object.assign(this, storInfo)\<close> copied from storage. Its id is a string; it is the
  key of its stored record and the id of its table row.
\<close>

definition articleKey :: "obj \<Rightarrow> string" where
  "articleKey this = (case getp this ''articleId'' of JStr s \<Rightarrow> s | _ \<Rightarrow> [])"

text \<open>\<open>Article.convertKeys\<close> renames the short keys in place and counts the renamings;
  the model returns the object and the count.\<close>

definition convertKey :: "string \<Rightarrow> string \<Rightarrow> obj \<times> nat \<Rightarrow> obj \<times> nat" where
  "convertKey short long = (\<lambda>(info, converted).
     if hasOwnProperty info short
     then (deletep short (setp long (getp info short) info), converted + 1)
     else (info, converted))"

definition convertKeys :: "obj \<Rightarrow> obj \<times> nat" where
  "convertKeys info =
     (let r = (info, 0);
          r = convertKey ''autoBid'' ''articleAutoBid'' r;
          r = convertKey ''minBid'' ''articleMinBid'' r;
          r = convertKey ''maxBid'' ''articleMaxBid'' r;
          r = convertKey ''description'' ''articleDescription'' r;
          r = convertKey ''endTime'' ''articleEndTime'' r;
          r = convertKey ''bidPrice'' ''articleBidPrice'' r;
          r = convertKey ''group'' ''articleGroup'' r
      in r)"

definition shortKeys :: "string list" where
  "shortKeys = [''maxBid'', ''minBid'', ''endTime'', ''bidPrice'', ''group'', ''description'', ''autoBid'']"

text \<open>The properties of an article that belong to the window, not to the record.\<close>

definition windowKeys :: "string list" where
  "windowKeys = [''popup'', ''tabId'', ''articleDetailsShown'']"

text \<open>\<open>s.replace(/,/, '.')\<close> replaces the first comma.\<close>

fun replaceComma :: "string \<Rightarrow> string" where
  "replaceComma [] = []"
| "replaceComma (c # cs) = (if c = CHR '','' then CHR ''.'' # cs else c # replaceComma cs)"

text \<open>\<open>Article.getDiffMessage\<close> called on two objects returns \<open>null\<close> exactly when no key
  of the new object other than \<open>articleAuctionState\<close> has a value that differs (by \<open>===\<close>)
  from the old object's. The wording of the message is not modelled: \<open>diffKeys\<close> is the
  list of the keys that enter it, and the message is \<open>null\<close> when the list is empty.\<close>

definition diffKeys :: "obj \<Rightarrow> obj \<Rightarrow> string list" where
  "diffKeys oldVal newVal =
     filter (\<lambda>key. key \<noteq> ''articleAuctionState'' \<and> \<not> strictEq (getp oldVal key) (getp newVal key))
       (map fst newVal)"

text \<open>\<open>Article.addLog\<close> appends one entry to the article's log in \<open>localStorage\<close>; the
  default message, the JSON text of the message object, is kept as the object.\<close>

definition addLog :: "rat \<Rightarrow> obj \<Rightarrow> obj \<Rightarrow> world \<Rightarrow> world" where
  "addLog now this messageObject w =
     (let message = [(''timestamp'', JNum now), (''message'', JObj messageObject),
                     (''component'', JStr ''Unbekannt''), (''level'', JStr ''Interner Fehler'')];
          message = (if hasOwnProperty messageObject ''timestamp''
                     then setp ''timestamp'' (getp messageObject ''timestamp'') message else message);
          message = (if hasOwnProperty messageObject ''message''
                     then setp ''message'' (getp messageObject ''message'') message else message);
          message = (if hasOwnProperty messageObject ''component''
                     then setp ''component'' (getp messageObject ''component'') message else message);
          message = (if hasOwnProperty messageObject ''level''
                     then setp ''level'' (getp messageObject ''level'') message else message);
          log = (case logs w (articleKey this) of None \<Rightarrow> [] | Some l \<Rightarrow> l)
      in w\<lparr>logs := (logs w)(articleKey this \<mapsto> log @ [message])\<rparr>)"

definition getInfoFromStorage :: "obj \<Rightarrow> world \<Rightarrow> obj option" where
  "getInfoFromStorage this w = sync w (articleKey this)"

text \<open>\<open>Article.updateInfoInStorage\<close>. \<open>info\<close> is \<open>None\<close> for \<open>null\<close>. \<open>parseFloat\<close> is
  \<open>Number.parseFloat\<close>, with a number or NaN as its result. The message sent to the
  article's tab after the write does not touch the stores and is left out.\<close>

definition updateInfoInStorage ::
  "(string \<Rightarrow> jval) \<Rightarrow> rat \<Rightarrow> obj \<Rightarrow> obj option \<Rightarrow> bool \<Rightarrow> world \<Rightarrow> world" where
  "updateInfoInStorage parseFloat now this info onlyIfExists w =
     (let result = sync w (articleKey this)
      in if result = None \<and> onlyIfExists = True then w
         else
           (let oldStoredInfo = (case result of None \<Rightarrow> [] | Some s \<Rightarrow> fst (convertKeys s));
                info = (case info of
                          None \<Rightarrow> []
                        | Some i \<Rightarrow>
                            if hasOwnProperty i ''maxBid'' then
                              (case getp i ''maxBid'' of
                                 JStr s \<Rightarrow> setp ''maxBid'' (parseFloat (replaceComma s)) i
                               | _ \<Rightarrow> i)
                            else i);
                newStoredInfo = fst (convertKeys (assign [] info));
                newStoredInfo = assign newStoredInfo this;
                newStoredInfo = deletep ''popup'' newStoredInfo;
                newStoredInfo = deletep ''tabId'' newStoredInfo;
                newStoredInfo = deletep ''articleDetailsShown'' newStoredInfo;
                mergedStoredInfo = assign (assign [] oldStoredInfo) newStoredInfo;
                diff = diffKeys oldStoredInfo newStoredInfo
            in if diff \<noteq> [] then
                 (let w1 = addLog now this
                             [(''component'', JStr ''Artikel''), (''level'', JStr ''Einstellungen''),
                              (''message'', JArr (map JStr diff))] w
                  in w1\<lparr>sync := (sync w1)(articleKey this \<mapsto> mergedStoredInfo)\<rparr>)
               else w))"

text \<open>The handler of a change of the input \<open>inpMaxBid_\<close>\<open>articleId\<close>: the entered text is
  parsed and checked against the buy-now price and the minimum bid of the article.\<close>

definition changeMaxBid :: "(string \<Rightarrow> jval) \<Rightarrow> string \<Rightarrow> obj \<Rightarrow> obj" where
  "changeMaxBid parseFloat val article =
     (let article = setp ''articleMaxBid'' (parseFloat (replaceComma val)) article
      in if hasOwnProperty article ''articleBuyPrice''
            \<and> js_gt (getp article ''articleMaxBid'') (getp article ''articleBuyPrice'')
         then setp ''articleMaxBid'' (js_sub (getp article ''articleBuyPrice'') cent) article
         else if hasOwnProperty article ''articleMinimumBid''
            \<and> js_lt (getp article ''articleMaxBid'') (getp article ''articleMinimumBid'')
         then setp ''articleMaxBid'' (getp article ''articleMinimumBid'') article
         else article)"

text \<open>The table: \<open>getArticleIdByTabId\<close> keeps the id of the last row with the tab id;
  \<open>findRow\<close> is \<open>DataTable.row('#' + articleId)\<close>, the row whose id is the article id.\<close>

definition getArticleIdByTabId :: "jval \<Rightarrow> world \<Rightarrow> jval" where
  "getArticleIdByTabId tabId w =
     fold (\<lambda>article articleId.
             if strictEq (getp article ''tabId'') tabId then getp article ''articleId'' else articleId)
       (rows w) JNull"

definition findRow :: "jval \<Rightarrow> obj list \<Rightarrow> nat option" where
  "findRow articleId rs =
     (case filter (\<lambda>i. strictEq (getp (rs ! i) ''articleId'') articleId) [0..<length rs] of
        [] \<Rightarrow> None
      | i # _ \<Rightarrow> Some i)"

definition maxBidInputChanged ::
  "(string \<Rightarrow> jval) \<Rightarrow> rat \<Rightarrow> jval \<Rightarrow> string \<Rightarrow> world \<Rightarrow> world" where
  "maxBidInputChanged parseFloat now articleId val w =
     (case findRow articleId (rows w) of
        None \<Rightarrow> w
      | Some i \<Rightarrow>
          (let article = changeMaxBid parseFloat val (rows w ! i);
               w1 = w\<lparr>rows := (rows w)[i := article]\<rparr>;
               info = [];
               info = (if hasOwnProperty article ''articleMaxBid''
                       then setp ''maxBid'' (getp article ''articleMaxBid'') info else info);
               info = (if hasOwnProperty article ''articleAutoBid''
                       then setp ''autoBid'' (getp article ''articleAutoBid'') info else info);
               info = (if hasOwnProperty article ''articleGroup''
                       then setp ''group'' (getp article ''articleGroup'') info else info)
           in updateInfoInStorage parseFloat now article (Some info) False w1))"

text \<open>\<open>ArticlesTable.removeArticleIfBoring\<close>: the tab id of the row is unset, then the
  stored record decides whether the row stays.\<close>

definition removeArticleIfBoring :: "jval \<Rightarrow> world \<Rightarrow> world" where
  "removeArticleIfBoring tabId w =
     (let articleId = getArticleIdByTabId tabId w
      in if articleId = JNull \<or> articleId = JUndefined then w
         else
           (case findRow articleId (rows w) of
              None \<Rightarrow> w
            | Some i \<Rightarrow>
                (let article = setp ''tabId'' JNull (rows w ! i);
                     w1 = w\<lparr>rows := (rows w)[i := article]\<rparr>
                 in case getInfoFromStorage article w1 of
                      None \<Rightarrow> w1\<lparr>rows := take i (rows w1) @ drop (Suc i) (rows w1)\<rparr>
                    | Some storageInfo \<Rightarrow>
                        if hasOwnProperty storageInfo ''articleMaxBid''
                           \<and> ((getp storageInfo ''articleMaxBid'' \<noteq> JNull
                                 \<and> getp storageInfo ''articleMaxBid'' \<noteq> JUndefined)
                              \<or> (getp storageInfo ''articleGroup'' \<noteq> JNull
                                 \<and> getp storageInfo ''articleGroup'' \<noteq> JUndefined))
                        then w1
                        else w1\<lparr>rows := take i (rows w1) @ drop (Suc i) (rows w1)\<rparr>)))"

section \<open>Article.getAdjustedBidTime\<close>

text \<open>
  The rows data is array-like; the keys that \<open>Object.filter\<close> keeps are row indices, in
  ascending order, and are kept as numbers here. \<open>Array.prototype.sort\<close> with a
  comparator is the stable insertion by that comparator (a result greater than zero
  moves the first argument behind the second); for a comparator that orders the
  elements consistently every conforming sort gives the same list.
\<close>

fun insertBy :: "('a \<Rightarrow> 'a \<Rightarrow> jval) \<Rightarrow> 'a \<Rightarrow> 'a list \<Rightarrow> 'a list" where
  "insertBy c x [] = [x]"
| "insertBy c x (y # ys) = (if js_gt (c x y) (JNum 0) then y # insertBy c x ys else x # y # ys)"

definition sortBy :: "('a \<Rightarrow> 'a \<Rightarrow> jval) \<Rightarrow> 'a list \<Rightarrow> 'a list" where
  "sortBy c xs = foldr (insertBy c) xs []"

fun indexOf :: "'a \<Rightarrow> 'a list \<Rightarrow> int" where
  "indexOf x [] = -1"
| "indexOf x (y # ys) = (if x = y then 0 else (let i = indexOf x ys in if i < 0 then -1 else i + 1))"

definition coEnding :: "obj \<Rightarrow> obj \<Rightarrow> bool" where
  "coEnding this article =
     (hasOwnProperty article ''articleEndTime''
      \<and> js_lt (js_abs (js_sub (getp article ''articleEndTime'') (getp this ''articleEndTime'')))
               (JNum 1000))"

definition findKey :: "obj list \<Rightarrow> nat list \<Rightarrow> jval \<Rightarrow> nat option" where
  "findKey articles filtered val =
     fold (\<lambda>prop key. if strictEq (getp (articles ! prop) ''articleId'') val then Some prop else key)
       filtered None"

text \<open>\<open>rs\<close> is \<open>None\<close> when \<open>rows()\<close> is \<open>null\<close>. The object \<open>filtered\<close> has the kept row
  indices as its only properties, so \<open>filtered.length\<close> is \<open>undefined\<close>.\<close>

definition getAdjustedBidTime :: "obj \<Rightarrow> obj list option \<Rightarrow> jval" where
  "getAdjustedBidTime this rs =
     (case rs of
        None \<Rightarrow> JNull
      | Some articles \<Rightarrow>
          (let filtered = filter (\<lambda>i. coEnding this (articles ! i)) [0..<length articles];
               filteredLength = JUndefined
           in if strictEq filteredLength (JNum 1) then getp this ''articleEndTime''
              else
                (let keys = sortBy (\<lambda>a b. js_sub (getp (articles ! a) ''articleId'')
                                                  (getp (articles ! b) ''articleId'')) filtered;
                     idx = findKey articles filtered (getp this ''articleId'');
                     rank = (case idx of None \<Rightarrow> -1 | Some k \<Rightarrow> indexOf k keys)
                 in js_sub (getp this ''articleEndTime'')
                      (js_mul (js_mul (JNum (of_int rank)) (JNum 2)) (JNum 1000)))))"

section \<open>Example states\<close>

text \<open>Window \<open>ext:1\<close> owns the synced record; the window looking at it has auto-bid
  enabled locally and is not simulating.\<close>

definition owned_by_ext1 :: world where
  "owned_by_ext1 =
     \<lparr>sync = [''SETTINGS'' \<mapsto> [(''autoBid'', JObj [(''id'', JStr ''ext:1''),
                                                     (''autoBidEnabled'', JBool True),
                                                     (''timestamp'', JNum 1577979582486)])]],
      settings = Some [(''autoBidEnabled'', JBool True), (''simulation'', JBool False)],
      logs = Map.empty, rows = []\<rparr>"

text \<open>Article 123456 as the table holds it, bound to tab 7, and a world whose store has
  a record for it.\<close>

definition article_123456 :: obj where
  "article_123456 =
     [(''articleId'', JStr ''123456''), (''articleGroup'', JNull), (''articleMaxBid'', JNum 12),
      (''articleAutoBid'', JBool False), (''tabId'', JNum 7), (''popup'', JObj []),
      (''articleDetailsShown'', JBool False)]"

definition stored_123456 :: world where
  "stored_123456 =
     \<lparr>sync = [''123456'' \<mapsto> [(''articleMaxBid'', JNum 10)]],
      settings = None, logs = Map.empty, rows = [article_123456]\<rparr>"

text \<open>Article 123456 with a buy-now price of 10 and a minimum bid of 1 in the table,
  nothing stored.\<close>

definition priced_123456 :: world where
  "priced_123456 =
     \<lparr>sync = Map.empty, settings = None, logs = Map.empty,
      rows = [[(''articleId'', JStr ''123456''), (''articleGroup'', JNull),
               (''articleMaxBid'', JNull), (''articleAutoBid'', JBool False),
               (''articleBuyPrice'', JNum 10), (''articleMinimumBid'', JNum 1),
               (''tabId'', JNum 7)]]\<rparr>"

text \<open>Three articles ending at the same time, in the table in the order 300, 100, 200,
  and a fourth that ends a minute later.\<close>

definition co_ending_rows :: "obj list" where
  "co_ending_rows =
     [[(''articleId'', JStr ''300''), (''articleEndTime'', JNum 1577979582486)],
      [(''articleId'', JStr ''100''), (''articleEndTime'', JNum 1577979582486)],
      [(''articleId'', JStr ''200''), (''articleEndTime'', JNum 1577979582486)],
      [(''articleId'', JStr ''400''), (''articleEndTime'', JNum 1577979642486)]]"

section \<open>Properties of numbers\<close>

text \<open>An integer is a double when its absolute value is at most \<open>2^53\<close>: rounding leaves
  it as it is.\<close>

lemma roundHalfEven_of_int: "roundHalfEven (of_int m) = m"
  by (simp add: roundHalfEven_def)

lemma bitlen_le_54:
  assumes "0 < n" "n \<le> 2 ^ 53"
  shows "1 \<le> bitlen n \<and> bitlen n \<le> 54"
proof -
  have b: "2 ^ nat (bitlen n - 1) \<le> n" "n < 2 ^ nat (bitlen n)"
    using bitlen_bounds [of n] assms by simp_all
  have "bitlen n \<noteq> 0" using b assms by auto
  then have p: "1 \<le> bitlen n" using bitlen_nonneg [of n] by simp
  have "(2::int) ^ nat (bitlen n - 1) \<le> 2 ^ 53" using b assms by simp
  then have "nat (bitlen n - 1) \<le> 53" by (rule power_le_imp_le_exp [rotated]) simp
  then show ?thesis using p by simp
qed

lemma round_of_int:
  assumes "0 < n" "n \<le> 2 ^ 53"
  shows "of_int (roundHalfEven (of_int n / pow2 (max (ilog2 (of_int n) - 52) (- 1074))))
           * pow2 (max (ilog2 (of_int n) - 52) (- 1074)) = (of_int n :: rat)"
proof -
  define b where "b = bitlen n"
  have bb: "1 \<le> b" "b \<le> 54" using bitlen_le_54 [OF assms] by (simp_all add: b_def)
  have il: "ilog2 (of_int n) = b - 1" using assms by (simp add: ilog2_def b_def)
  have x: "max (ilog2 (of_int n) - 52) (- 1074) = b - 53" using bb by (simp add: il)
  show ?thesis
  proof (cases "b \<le> 53")
    case True
    then have p: "pow2 (b - 53) = 1 / 2 ^ nat (53 - b)"
      by (cases "b = 53") (simp_all add: pow2_def)
    have "of_int n / pow2 (b - 53) = (of_int (n * 2 ^ nat (53 - b)) :: rat)"
      by (simp add: p)
    then have "roundHalfEven (of_int n / pow2 (b - 53)) = n * 2 ^ nat (53 - b)"
      by (simp only: roundHalfEven_of_int)
    then show ?thesis unfolding x by (simp add: p)
  next
    case False
    then have b54: "b = 54" using bb by simp
    have "2 ^ nat (bitlen n - 1) \<le> n" using bitlen_bounds [of n] assms by simp
    then have n: "n = 2 ^ 53" using assms b54 by (simp add: b_def)
    then have "of_int n / pow2 (b - 53) = (of_int (2 ^ 52) :: rat)"
      by (simp add: b54 pow2_def)
    then have "roundHalfEven (of_int n / pow2 (b - 53)) = 2 ^ 52"
      by (simp only: roundHalfEven_of_int)
    then show ?thesis unfolding x using n by (simp add: b54 pow2_def)
  qed
qed

lemma double_of_int: "\<bar>z\<bar> \<le> 2 ^ 53 \<Longrightarrow> double (of_int z) = Finite (of_int z)"
proof (cases "z = 0")
  case True
  then show ?thesis by (simp add: double_def)
next
  case False
  assume z: "\<bar>z\<bar> \<le> 2 ^ 53"
  have n: "0 < \<bar>z\<bar>" using False by simp
  have v: "of_int (roundHalfEven (of_int \<bar>z\<bar> / pow2 (max (ilog2 (of_int \<bar>z\<bar>) - 52) (- 1074))))
           * pow2 (max (ilog2 (of_int \<bar>z\<bar>) - 52) (- 1074)) = (of_int \<bar>z\<bar> :: rat)"
    using round_of_int [OF n z] .
  have "(of_int \<bar>z\<bar> :: rat) \<le> 2 ^ 53"
    using z by (metis of_int_le_iff of_int_numeral of_int_power)
  also have "\<dots> < 2 ^ 1024" by simp
  finally have small: "\<not> pow2 1024 \<le> (of_int \<bar>z\<bar> :: rat)" by (simp add: pow2_def)
  have a: "\<bar>of_int z :: rat\<bar> = of_int \<bar>z\<bar>" by simp
  show ?thesis
    using False small unfolding double_def Let_def a v
    by (cases "0 < z") simp_all
qed

text \<open>The test for overflow can be made on the exponent: \<open>2^1024 \<le> v\<close> exactly when
  the binary logarithm of \<open>v\<close> is at least 1024. This is the form in which \<open>double\<close> is
  evaluated.\<close>

lemma pow2_pos: "0 < pow2 k"
  by (simp add: pow2_def)

lemma roundHalfEven_nonneg: "0 \<le> m \<Longrightarrow> 0 \<le> roundHalfEven m"
  by (simp add: roundHalfEven_def Let_def)

lemma bitlen_ge_iff:
  assumes "0 < z"
  shows "(2 ^ 1024 \<le> z) = (1025 \<le> bitlen z)"
proof
  assume "2 ^ 1024 \<le> z"
  moreover have "z < 2 ^ nat (bitlen z)" using bitlen_bounds [of z] assms by simp
  ultimately have "(2::int) ^ 1024 < 2 ^ nat (bitlen z)" by (rule le_less_trans)
  then have "1024 < nat (bitlen z)" by (rule power_less_imp_less_exp [rotated]) simp
  then show "1025 \<le> bitlen z" by simp
next
  assume b: "1025 \<le> bitlen z"
  then have "(2::int) ^ 1024 \<le> 2 ^ nat (bitlen z - 1)"
    by (intro power_increasing) simp_all
  also have "\<dots> \<le> z" using bitlen_bounds [of z] assms by simp
  finally show "2 ^ 1024 \<le> z" .
qed

lemma overflow_test:
  assumes "0 \<le> v"
  shows "(pow2 1024 \<le> v) = (1024 \<le> ilog2 v)"
proof (cases "1 \<le> v")
  case True
  then have z: "0 < \<lfloor>v\<rfloor>" by simp
  have "(pow2 1024 \<le> v) = (of_int (2 ^ 1024) \<le> v)" by (simp add: pow2_def)
  also have "\<dots> = (2 ^ 1024 \<le> \<lfloor>v\<rfloor>)" by (rule le_floor_iff [symmetric])
  also have "\<dots> = (1025 \<le> bitlen \<lfloor>v\<rfloor>)" using z by (rule bitlen_ge_iff)
  also have "\<dots> = (1024 \<le> ilog2 v)" using True by (auto simp add: ilog2_def)
  finally show ?thesis .
next
  case False
  have "(1::rat) \<le> 2 ^ 1024" by (rule one_le_power) simp
  then have "\<not> pow2 1024 \<le> v" using False by (simp add: pow2_def)
  moreover have "ilog2 v \<le> 0"
    using False bitlen_nonneg [of "\<lceil>1 / v\<rceil> - 1"] by (simp add: ilog2_def)
  ultimately show ?thesis by simp
qed

lemma double_code [code]:
  "double q =
     (if q = 0 then Finite 0
      else
        (let a = \<bar>q\<bar>;
             x = max (ilog2 a - 52) (- 1074);
             v = of_int (roundHalfEven (a / pow2 x)) * pow2 x
         in if 1024 \<le> ilog2 v then Infinite (0 < q)
            else Finite (if 0 < q then v else - v)))"
proof -
  have "0 \<le> of_int (roundHalfEven (\<bar>q\<bar> / pow2 x)) * pow2 x" for x
    using pow2_pos [of x] by (simp add: roundHalfEven_nonneg less_imp_le)
  then show ?thesis
    by (simp add: double_def Let_def overflow_test)
qed

text \<open>The literal \<open>0.01\<close> is the double \<open>5764607523034235 / 2^59\<close>.\<close>

lemma cent_value: "cent = JNum (5764607523034235 / 576460752303423488)"
  by code_simp

lemma js_sub_cent:
  "js_sub (JNum b) cent = ofNumber (double (b - 5764607523034235 / 576460752303423488))"
  by (simp add: js_sub_def cent_value)

lemma ofNumber_defined: "ofNumber x \<noteq> JUndefined"
  by (cases x) simp_all

lemma strictEq_eq: "strictEq a b \<Longrightarrow> a = b"
  by (cases a) simp_all

section \<open>Properties of objects\<close>

lemma map_of_setp: "map_of (setp k v ob) = (map_of ob)(k \<mapsto> v)"
  by (simp add: setp_def update_conv')

lemma map_of_deletep: "map_of (deletep k ob) = (map_of ob)(k := None)"
  by (simp add: deletep_def delete_conv')

lemma hasOwnProperty_setp: "hasOwnProperty (setp k v ob) k' = (k' = k \<or> hasOwnProperty ob k')"
  by (simp add: hasOwnProperty_def map_of_setp)

lemma hasOwnProperty_deletep:
  "hasOwnProperty (deletep k ob) k' = (k' \<noteq> k \<and> hasOwnProperty ob k')"
  by (simp add: hasOwnProperty_def map_of_deletep)

lemma getp_setp: "getp (setp k v ob) k' = (if k' = k then v else getp ob k')"
  by (simp add: getp_def map_of_setp)

lemma getp_deletep: "getp (deletep k ob) k' = (if k' = k then JUndefined else getp ob k')"
  by (simp add: getp_def map_of_deletep)

lemma map_of_assign: "map_of (assign t s) = map_of t ++ map_of (rev s)"
proof (induction s arbitrary: t)
  case Nil
  then show ?case by (simp add: assign_def)
next
  case (Cons p s)
  obtain k v where p: "p = (k, v)" by (cases p)
  have "assign t (p # s) = assign (setp k v t) s" by (simp add: assign_def p)
  then show ?case
    by (simp add: Cons.IH map_of_setp p map_add_upd_left map_add_def fun_eq_iff split: option.splits)
qed

lemma hasOwnProperty_assign:
  "hasOwnProperty (assign t s) k = (hasOwnProperty t k \<or> hasOwnProperty s k)"
proof -
  have "dom (map_of (assign t s)) = dom (map_of t) \<union> dom (map_of s)"
    by (auto simp add: map_of_assign dom_map_of_conv_image_fst)
  then have "(k \<in> dom (map_of (assign t s))) = (k \<in> dom (map_of t) \<or> k \<in> dom (map_of s))"
    by simp
  then show ?thesis
    by (simp add: hasOwnProperty_def domIff)
qed

lemma uniqueKeys_setp: "uniqueKeys ob \<Longrightarrow> uniqueKeys (setp k v ob)"
  by (simp add: uniqueKeys_def setp_def distinct_update)

lemma uniqueKeys_deletep: "uniqueKeys ob \<Longrightarrow> uniqueKeys (deletep k ob)"
  by (simp add: uniqueKeys_def deletep_def distinct_delete)

lemma uniqueKeys_assign: "uniqueKeys t \<Longrightarrow> uniqueKeys (assign t s)"
proof (induction s arbitrary: t)
  case Nil
  then show ?case by (simp add: assign_def)
next
  case (Cons p s)
  have "assign t (p # s) = assign (setp (fst p) (snd p) t) s"
    by (simp add: assign_def case_prod_beta)
  then show ?case using Cons by (simp add: uniqueKeys_setp)
qed

lemma uniqueKeys_jsonObj: "uniqueKeys ps \<Longrightarrow> uniqueKeys (jsonObj ps)"
  by (simp add: uniqueKeys_def jsonObj_def distinct_map_filter comp_def)

lemma uniqueKeys_empty: "uniqueKeys []"
  by (simp add: uniqueKeys_def)

lemma map_of_rev_distinct: "distinct (map fst xs) \<Longrightarrow> map_of (rev xs) = map_of xs"
  by (subst map_of_inject_set) (simp_all add: rev_map[symmetric])

lemma getp_assign:
  "uniqueKeys s \<Longrightarrow> getp (assign t s) k = (if hasOwnProperty s k then getp s k else getp t k)"
proof -
  assume "uniqueKeys s"
  then have m: "map_of (assign t s) k = (map_of t ++ map_of s) k"
    by (simp add: map_of_assign uniqueKeys_def map_of_rev_distinct)
  show ?thesis
    unfolding getp_def hasOwnProperty_def m
    by (cases "map_of s k") (simp_all add: map_add_def)
qed

lemma map_of_jsonObj:
  "map_of ps k = Some v \<Longrightarrow> json v \<noteq> JUndefined \<Longrightarrow> map_of (jsonObj ps) k = Some (json v)"
  by (induction ps) (auto simp add: jsonObj_def)

section \<open>Properties of the arbitration\<close>

lemma sync_setLocalState: "sync (setLocalState a s w) = sync w"
  by (simp add: setLocalState_def updateSetting_def Let_def)

lemma sync_getState: "sync (snd (getState myId w)) = sync w"
  by (simp add: getState_def Let_def sync_setLocalState)

lemma world_sync_triv: "sync w k = Some v \<Longrightarrow> w\<lparr>sync := (sync w)(k \<mapsto> v)\<rparr> = w"
  by (simp add: map_upd_triv)

text \<open>
  C1. The claim: a sweep that finds the synced owner record more than 300000 ms old
  deletes it, so that the stored SETTINGS has no \<open>autoBid\<close> entry afterwards, whichever
  window sweeps. The code: window \<open>ext:2\<close> sweeps at 1577979882487, the record of
  \<open>ext:1\<close> was stamped 300001 ms earlier. \<open>setSyncState(null)\<close> deletes the entry from
  its copy of the old settings and then writes the new settings it built before, so
  the store holds an owner entry again: the sweeper's id, \<open>autoBidEnabled\<close> \<open>null\<close> and
  a fresh time stamp.
\<close>

theorem removeDeadAutoBid_writes_owner_entry:
  "removeDeadAutoBid 1577979882487 ''ext:2''
     \<lparr>sync = [''SETTINGS'' \<mapsto> [(''autoBid'', JObj [(''id'', JStr ''ext:1''),
                                                     (''autoBidEnabled'', JBool True),
                                                     (''timestamp'', JNum 1577979582486)])]],
      settings = None, logs = Map.empty, rows = []\<rparr>
   = Inr \<lparr>sync = [''SETTINGS'' \<mapsto> [(''autoBid'', JObj [(''id'', JStr ''ext:2''),
                                                          (''autoBidEnabled'', JNull),
                                                          (''timestamp'', JNum 1577979882487)])]],
           settings = None, logs = Map.empty, rows = []\<rparr>"
proof -
  have age: "js_gt (js_div (js_sub (JNum 1577979882487) (JNum 1577979582486)) (JNum 1000))
               (JNum 300)"
    by code_simp
  show ?thesis
    by (simp add: removeDeadAutoBid_def getSyncState_def setSyncState_def hasOwnProperty_def
        getp_def assign_def setp_def age)
qed

text \<open>The same holds for every record with a numeric time stamp for which the age test
  succeeds, whichever window sweeps.\<close>

lemma hasOwn_getSyncState_timestamp: "hasOwnProperty (getSyncState w) ''timestamp''"
  by (simp add: getSyncState_def Let_def hasOwnProperty_assign split: option.splits)
     (simp add: hasOwnProperty_def)

lemma removeDeadAutoBid_stale:
  assumes "getp (getSyncState w) ''timestamp'' = JNum ts"
    and "js_gt (js_div (js_sub (JNum now) (JNum ts)) (JNum 1000)) (JNum 300)"
  shows "removeDeadAutoBid now myId w =
     Inr (w\<lparr>sync := (sync w)(''SETTINGS'' \<mapsto>
            [(''autoBid'', JObj [(''id'', JStr myId), (''autoBidEnabled'', JNull),
                                (''timestamp'', JNum now)])])\<rparr>)"
  using assms
  by (simp add: removeDeadAutoBid_def Let_def hasOwn_getSyncState_timestamp setSyncState_def)

text \<open>
  C2. Disabling (\<open>setSyncState(false)\<close>) while the stored owner id is not the window's
  own id leaves the stores exactly as they were: the old settings are written back
  unchanged. (When the stored \<open>autoBid\<close> entry is \<open>null\<close> the test of its id throws and
  nothing is written at all.) So the owner record is removed by a disable only if its
  id is the disabling window's.
\<close>

theorem setSyncState_disable_keeps_foreign_record:
  assumes "sync w ''SETTINGS'' = Some oldSettings"
    and "getv (getp oldSettings ''autoBid'') ''id'' \<noteq> Inr (JStr myId)"
  shows "setSyncState now myId (JBool False) w =
     (if hasOwnProperty oldSettings ''autoBid''
         \<and> (getp oldSettings ''autoBid'' = JNull \<or> getp oldSettings ''autoBid'' = JUndefined)
      then Inl TypeError else Inr w)"
  using assms
  apply (simp add: setSyncState_def Let_def world_sync_triv split: sum.splits)
  apply (cases "getp oldSettings ''autoBid''"; simp)
  done

theorem setSyncState_disable_keeps_foreign_record_witness:
  "setSyncState 1577979882487 ''ext:2'' (JBool False)
     \<lparr>sync = [''SETTINGS'' \<mapsto> [(''autoBid'', JObj [(''id'', JStr ''ext:1''),
                                                     (''autoBidEnabled'', JBool True),
                                                     (''timestamp'', JNum 1577979582486)])]],
      settings = None, logs = Map.empty, rows = []\<rparr>
   = Inr \<lparr>sync = [''SETTINGS'' \<mapsto> [(''autoBid'', JObj [(''id'', JStr ''ext:1''),
                                                          (''autoBidEnabled'', JBool True),
                                                          (''timestamp'', JNum 1577979582486)])]],
           settings = None, logs = Map.empty, rows = []\<rparr>"
  using setSyncState_disable_keeps_foreign_record
    [of "\<lparr>sync = [''SETTINGS'' \<mapsto> [(''autoBid'', JObj [(''id'', JStr ''ext:1''),
                                                     (''autoBidEnabled'', JBool True),
                                                     (''timestamp'', JNum 1577979582486)])]],
      settings = None, logs = Map.empty, rows = []\<rparr>"
        "[(''autoBid'', JObj [(''id'', JStr ''ext:1''), (''autoBidEnabled'', JBool True),
                            (''timestamp'', JNum 1577979582486)])]"
        "''ext:2''" 1577979882487]
  by (simp add: getp_def hasOwnProperty_def)

text \<open>When the stored owner id is the window's own, the disable removes the entry and keeps
  the other settings.\<close>

lemma setSyncState_disable_own:
  assumes "sync w ''SETTINGS'' = Some oldSettings"
    and "map_of oldSettings ''autoBid'' = Some (JObj autoBid)"
    and "map_of autoBid ''id'' = Some (JStr myId)"
  shows "setSyncState now myId (JBool False) w =
     Inr (w\<lparr>sync := (sync w)(''SETTINGS'' \<mapsto> deletep ''autoBid'' oldSettings)\<rparr>)"
  using assms
  by (simp add: setSyncState_def Let_def hasOwnProperty_def getp_def)

lemma uniqueKeys_getLocalState: "uniqueKeys (getLocalState w)"
proof -
  have "uniqueKeys [(''autoBidEnabled'', JBool False), (''simulation'', JBool False)]"
    by (simp add: uniqueKeys_def)
  then show ?thesis
    by (cases "settings w") (simp_all add: getLocalState_def Let_def uniqueKeys_assign)
qed

lemma hasOwn_getLocalState_simulation: "hasOwnProperty (getLocalState w) ''simulation''"
  by (simp add: getLocalState_def Let_def hasOwnProperty_assign split: option.splits)
     (simp add: hasOwnProperty_def)

lemma getp_info_simulation:
  "getp (assign [(''autoBidEnabled'', JBool False), (''simulation'', JBool False), (''id'', JNull)]
          (getLocalState w)) ''simulation'' = getp (getLocalState w) ''simulation''"
  by (simp add: getp_assign uniqueKeys_getLocalState hasOwn_getLocalState_simulation)

lemma getLocalState_after_disable:
  assumes "\<forall>r. settings w = Some r \<longrightarrow> uniqueKeys r"
  shows "getp (getLocalState (setLocalState (JBool False) JUndefined w)) ''autoBidEnabled'' = JBool False"
proof -
  define r0 where "r0 = (case settings w of None \<Rightarrow> [] | Some r \<Rightarrow> r)"
  have u0: "uniqueKeys r0"
    using assms by (auto simp add: r0_def uniqueKeys_def split: option.splits)
  define r1 where "r1 = jsonObj (setp ''autoBidEnabled'' (JBool False)
      (if hasOwnProperty r0 ''simulate'' then deletep ''simulate'' r0 else r0))"
  have u1: "uniqueKeys r1"
    using u0 by (simp add: r1_def uniqueKeys_jsonObj uniqueKeys_setp uniqueKeys_deletep)
  have m1: "map_of r1 ''autoBidEnabled'' = Some (JBool False)"
    unfolding r1_def using map_of_jsonObj[where v = "JBool False"]
    by (simp add: map_of_setp)
  define r2 where "r2 = jsonObj (setp ''simulation'' JUndefined
      (if hasOwnProperty r1 ''simulate'' then deletep ''simulate'' r1 else r1))"
  have u2: "uniqueKeys r2"
    using u1 by (simp add: r2_def uniqueKeys_jsonObj uniqueKeys_setp uniqueKeys_deletep)
  have m2: "map_of r2 ''autoBidEnabled'' = Some (JBool False)"
    unfolding r2_def using m1 map_of_jsonObj[where v = "JBool False"]
    by (simp add: map_of_setp map_of_deletep)
  have s: "settings (setLocalState (JBool False) JUndefined w) = Some r2"
    by (simp add: setLocalState_def updateSetting_def Let_def r2_def r1_def r0_def)
  show ?thesis
    using u2 m2
    by (simp add: getLocalState_def s Let_def getp_assign hasOwnProperty_def) (simp add: getp_def)
qed

text \<open>
  C3. \<open>AutoBid.getState\<close>, when the id of the synced owner record is neither \<open>null\<close> nor
  the window's own id: the returned info carries the advisory, whose link names that id;
  and if the window is not simulating (its local \<open>simulation\<close> is \<open>false\<close>), the returned
  \<open>autoBidEnabled\<close> is \<open>false\<close> and so is the local state read after the call. The session
  settings are an object (each key once).
\<close>

theorem getState_preempted:
  assumes "getp (getSyncState w) ''id'' \<noteq> JNull"
    and "getp (getSyncState w) ''id'' \<noteq> JUndefined"
    and "getp (getSyncState w) ''id'' \<noteq> JStr myId"
    and "\<forall>r. settings w = Some r \<longrightarrow> uniqueKeys r"
  shows "(\<exists>m. messageHtml (fst (getState myId w)) = Some m
              \<and> linkTarget m = getp (getSyncState w) ''id'')
    \<and> (getp (getLocalState w) ''simulation'' = JBool False \<longrightarrow>
         getp (props (fst (getState myId w))) ''autoBidEnabled'' = JBool False
         \<and> getp (getLocalState (snd (getState myId w))) ''autoBidEnabled'' = JBool False)"
proof -
  have h: "hasOwnProperty (getSyncState w) ''id''"
    by (simp add: getSyncState_def Let_def hasOwnProperty_assign split: option.splits)
       (simp add: hasOwnProperty_def)
  show ?thesis
    using assms h getLocalState_after_disable[OF assms(4)]
    by (simp add: getState_def Let_def getp_info_simulation getp_setp getDisableMessage_def)
qed

theorem getState_preempted_witness:
  "getp (getSyncState owned_by_ext1) ''id'' = JStr ''ext:1''
   \<and> getp (getLocalState owned_by_ext1) ''simulation'' = JBool False
   \<and> (\<exists>m. messageHtml (fst (getState ''ext:2'' owned_by_ext1)) = Some m
            \<and> linkTarget m = JStr ''ext:1'')
   \<and> getp (props (fst (getState ''ext:2'' owned_by_ext1))) ''autoBidEnabled'' = JBool False
   \<and> getp (getLocalState (snd (getState ''ext:2'' owned_by_ext1))) ''autoBidEnabled'' = JBool False"
proof -
  have i: "getp (getSyncState owned_by_ext1) ''id'' = JStr ''ext:1''" by code_simp
  have s: "getp (getLocalState owned_by_ext1) ''simulation'' = JBool False" by code_simp
  have u: "\<forall>r. settings owned_by_ext1 = Some r \<longrightarrow> uniqueKeys r"
    by (simp add: owned_by_ext1_def uniqueKeys_def)
  show ?thesis
    using getState_preempted [of owned_by_ext1 "''ext:2''"] i s u by simp
qed

text \<open>
  C8. The claim: \<open>checkChangeIsRelevant\<close> returns \<open>false\<close> exactly when the new owner id
  of the change is the window's own id. The code, on the change of the source's own
  comment with the window's own id as the new owner: the new value is an object
  without a property \<open>length\<close>, \<open>newValue.length > 0\<close> is false, and the change is
  reported relevant.
\<close>

theorem checkChangeIsRelevant_own_change_relevant:
  "checkChangeIsRelevant (Some ''kfpgnpfmingbecjejgnjekbadpcggeae:138'')
     [(''newValue'', JObj [(''autoBid'', JObj [(''autoBidEnabled'', JBool True),
                                               (''id'', JStr ''kfpgnpfmingbecjejgnjekbadpcggeae:138''),
                                               (''timestamp'', JNum 1577979582486)])]),
      (''oldValue'', JObj [(''autoBid'', JObj [(''autoBidEnabled'', JBool True),
                                               (''id'', JStr ''kfpgnpfmingbecjejgnjekbadpcggeae:138''),
                                               (''timestamp'', JNum 1577979572481)])])]
   = Inr True"
  by (simp add: checkChangeIsRelevant_def hasOwnProperty_def getp_def js_gt_def)

text \<open>Every change whose new value is an object without a property \<open>length\<close> is
  reported relevant, whatever its owner id.\<close>

lemma checkChangeIsRelevant_object:
  assumes "map_of changeInfo ''newValue'' = Some (JObj ps)" and "\<not> hasOwnProperty ps ''length''"
  shows "checkChangeIsRelevant beWindowId changeInfo = Inr True"
  using assms
  by (simp add: checkChangeIsRelevant_def hasOwnProperty_def getp_def js_gt_def)

text \<open>
  C9. \<open>AutoBid.setState\<close> with \<open>simulation = true\<close> leaves \<open>browser.storage.sync\<close> as
  it was: it writes the session settings and renders, and neither touches the
  synchronized store.
\<close>

theorem setState_simulation_keeps_sync:
  "sync (setState now myId autoBidEnabled True w) = sync w"
  by (simp add: setState_def renderState_def sync_getState sync_setLocalState)

section \<open>Properties of the stored records\<close>

lemma convertKey_absent:
  "\<not> hasOwnProperty info short \<Longrightarrow> convertKey short long (info, n) = (info, n)"
  by (simp add: convertKey_def)

lemma convertKeys_no_short:
  assumes "\<forall>k \<in> set shortKeys. \<not> hasOwnProperty info k"
  shows "convertKeys info = (info, 0)"
  using assms by (simp add: convertKeys_def shortKeys_def Let_def convertKey_absent)

lemma hasOwnProperty_convertKey:
  "hasOwnProperty (fst (convertKey short long r)) k =
     (if hasOwnProperty (fst r) short
      then k \<noteq> short \<and> (k = long \<or> hasOwnProperty (fst r) k)
      else hasOwnProperty (fst r) k)"
  by (cases r) (auto simp add: convertKey_def hasOwnProperty_deletep hasOwnProperty_setp)

lemma hasOwnProperty_convertKey_same:
  "short \<noteq> long \<Longrightarrow> hasOwnProperty (fst (convertKey short long r)) short = False"
  by (simp add: hasOwnProperty_convertKey)

lemma hasOwnProperty_convertKey_other:
  "k \<noteq> short \<Longrightarrow> k \<noteq> long \<Longrightarrow>
   hasOwnProperty (fst (convertKey short long r)) k = hasOwnProperty (fst r) k"
  by (simp add: hasOwnProperty_convertKey)

lemma convertKeys_result_no_short:
  assumes "k \<in> set shortKeys"
  shows "\<not> hasOwnProperty (fst (convertKeys info)) k"
proof -
  have "\<not> hasOwnProperty (fst (convertKeys info)) ''maxBid''"
    by (simp add: convertKeys_def Let_def hasOwnProperty_convertKey_same hasOwnProperty_convertKey_other)
  moreover have "\<not> hasOwnProperty (fst (convertKeys info)) ''minBid''"
    by (simp add: convertKeys_def Let_def hasOwnProperty_convertKey_same hasOwnProperty_convertKey_other)
  moreover have "\<not> hasOwnProperty (fst (convertKeys info)) ''endTime''"
    by (simp add: convertKeys_def Let_def hasOwnProperty_convertKey_same hasOwnProperty_convertKey_other)
  moreover have "\<not> hasOwnProperty (fst (convertKeys info)) ''bidPrice''"
    by (simp add: convertKeys_def Let_def hasOwnProperty_convertKey_same hasOwnProperty_convertKey_other)
  moreover have "\<not> hasOwnProperty (fst (convertKeys info)) ''group''"
    by (simp add: convertKeys_def Let_def hasOwnProperty_convertKey_same hasOwnProperty_convertKey_other)
  moreover have "\<not> hasOwnProperty (fst (convertKeys info)) ''description''"
    by (simp add: convertKeys_def Let_def hasOwnProperty_convertKey_same hasOwnProperty_convertKey_other)
  moreover have "\<not> hasOwnProperty (fst (convertKeys info)) ''autoBid''"
    by (simp add: convertKeys_def Let_def hasOwnProperty_convertKey_same hasOwnProperty_convertKey_other)
  ultimately show ?thesis
    using assms unfolding shortKeys_def by (simp only: set_simps insert_iff empty_iff) blast
qed

text \<open>
  C7. \<open>Article.convertKeys\<close> on a record with none of the short keys returns the record
  as it is and counts no conversion; and whatever the record, converting the converted
  record again changes nothing and counts no conversion.
\<close>

theorem convertKeys_idempotent:
  "((\<forall>k \<in> set shortKeys. \<not> hasOwnProperty info k) \<longrightarrow> convertKeys info = (info, 0))
   \<and> convertKeys (fst (convertKeys info)) = (fst (convertKeys info), 0)"
  using convertKeys_no_short convertKeys_result_no_short by blast

theorem convertKeys_idempotent_witness:
  "convertKeys [(''articleId'', JStr ''123456''), (''articleMaxBid'', JNum 10)]
     = ([(''articleId'', JStr ''123456''), (''articleMaxBid'', JNum 10)], 0)
   \<and> fst (convertKeys [(''maxBid'', JNum 10), (''articleId'', JStr ''123456''), (''autoBid'', JBool True)])
     = [(''articleId'', JStr ''123456''), (''articleAutoBid'', JBool True), (''articleMaxBid'', JNum 10)]
   \<and> convertKeys [(''articleId'', JStr ''123456''), (''articleAutoBid'', JBool True),
                   (''articleMaxBid'', JNum 10)]
     = ([(''articleId'', JStr ''123456''), (''articleAutoBid'', JBool True),
         (''articleMaxBid'', JNum 10)], 0)"
proof -
  have c: "fst (convertKeys [(''maxBid'', JNum 10), (''articleId'', JStr ''123456''), (''autoBid'', JBool True)])
     = [(''articleId'', JStr ''123456''), (''articleAutoBid'', JBool True), (''articleMaxBid'', JNum 10)]"
    by (simp add: convertKeys_def convertKey_def hasOwnProperty_def getp_def setp_def deletep_def Let_def)
  show ?thesis
    using convertKeys_idempotent [of "[(''articleId'', JStr ''123456''), (''articleMaxBid'', JNum 10)]"]
      convertKeys_idempotent
        [of "[(''maxBid'', JNum 10), (''articleId'', JStr ''123456''), (''autoBid'', JBool True)]"]
    by (simp add: c shortKeys_def hasOwnProperty_def)
qed

lemma hasOwnProperty_convertKeys_windowKeys:
  assumes "k \<in> set windowKeys"
  shows "hasOwnProperty (fst (convertKeys ob)) k = hasOwnProperty ob k"
proof -
  have "hasOwnProperty (fst (convertKeys ob)) ''popup'' = hasOwnProperty ob ''popup''"
    by (simp add: convertKeys_def Let_def hasOwnProperty_convertKey_other)
  moreover have "hasOwnProperty (fst (convertKeys ob)) ''tabId'' = hasOwnProperty ob ''tabId''"
    by (simp add: convertKeys_def Let_def hasOwnProperty_convertKey_other)
  moreover have "hasOwnProperty (fst (convertKeys ob)) ''articleDetailsShown''
                   = hasOwnProperty ob ''articleDetailsShown''"
    by (simp add: convertKeys_def Let_def hasOwnProperty_convertKey_other)
  ultimately show ?thesis
    using assms unfolding windowKeys_def by (simp only: set_simps insert_iff empty_iff) blast
qed

lemma sync_addLog: "sync (addLog now this m w) = sync w"
  by (simp add: addLog_def Let_def)

text \<open>
  C10. The claim: the record that \<open>updateInfoInStorage\<close> writes never contains \<open>popup\<close>,
  \<open>tabId\<close> or \<open>articleDetailsShown\<close>. The code strips the three keys from the new
  information only and then merges it over the record read from storage: here the
  stored record of article 123456 has a \<open>tabId\<close> (5), the article in memory has
  another (7), and the record written keeps the stored one.
\<close>

theorem updateInfoInStorage_keeps_stored_tabId:
  "sync (updateInfoInStorage (\<lambda>s. JNaN) 1577979582486
           [(''articleId'', JStr ''123456''), (''articleGroup'', JNull), (''articleMaxBid'', JNum 12),
            (''articleAutoBid'', JBool False), (''tabId'', JNum 7), (''popup'', JObj []),
            (''articleDetailsShown'', JBool False)]
           (Some [(''maxBid'', JNum 12)]) False
           \<lparr>sync = [''123456'' \<mapsto> [(''articleMaxBid'', JNum 10), (''tabId'', JNum 5)]],
            settings = None, logs = Map.empty, rows = []\<rparr>) ''123456''
   = Some [(''articleMaxBid'', JNum 12), (''tabId'', JNum 5), (''articleId'', JStr ''123456''),
           (''articleGroup'', JNull), (''articleAutoBid'', JBool False)]"
  by code_simp

text \<open>
  C10, amended. A key among \<open>popup\<close>, \<open>tabId\<close> and \<open>articleDetailsShown\<close> that the record
  stored before the call does not have is not in the record stored after the call
  either: the keys of the article in memory and of the incoming update never reach the
  store.
\<close>

theorem updateInfoInStorage_window_keys:
  assumes "k \<in> set windowKeys"
    and "\<forall>old. sync w (articleKey this) = Some old \<longrightarrow> \<not> hasOwnProperty old k"
  shows "\<forall>r. sync (updateInfoInStorage parseFloat now this info onlyIfExists w) (articleKey this) = Some r
            \<longrightarrow> \<not> hasOwnProperty r k"
proof -
  have old: "\<not> hasOwnProperty (case sync w (articleKey this) of None \<Rightarrow> []
                                | Some s \<Rightarrow> fst (convertKeys s)) k"
  proof (cases "sync w (articleKey this)")
    case None
    then show ?thesis by (simp add: hasOwnProperty_def)
  next
    case (Some s)
    then show ?thesis
      using assms by (simp add: hasOwnProperty_convertKeys_windowKeys)
  qed
  have new: "\<And>x. \<not> hasOwnProperty (deletep ''articleDetailsShown''
                                      (deletep ''tabId'' (deletep ''popup'' x))) k"
    using assms(1) unfolding windowKeys_def
    by (simp only: set_simps insert_iff empty_iff hasOwnProperty_deletep) blast
  have e: "\<not> hasOwnProperty [] k" by (simp add: hasOwnProperty_def)
  show ?thesis
    using assms(2) old new e
    by (simp add: updateInfoInStorage_def Let_def sync_addLog hasOwnProperty_assign)
qed

theorem updateInfoInStorage_window_keys_witness:
  "sync (updateInfoInStorage (\<lambda>s. JNaN) 1577979582486 article_123456
           (Some [(''maxBid'', JNum 12)]) False stored_123456) ''123456''
     = Some [(''articleMaxBid'', JNum 12), (''articleId'', JStr ''123456''),
             (''articleGroup'', JNull), (''articleAutoBid'', JBool False)]
   \<and> hasOwnProperty article_123456 ''tabId''
   \<and> \<not> hasOwnProperty
        [(''articleMaxBid'', JNum 12), (''articleId'', JStr ''123456''),
         (''articleGroup'', JNull), (''articleAutoBid'', JBool False)] ''tabId''"
proof -
  have w: "sync (updateInfoInStorage (\<lambda>s. JNaN) 1577979582486 article_123456
           (Some [(''maxBid'', JNum 12)]) False stored_123456) ''123456''
     = Some [(''articleMaxBid'', JNum 12), (''articleId'', JStr ''123456''),
             (''articleGroup'', JNull), (''articleAutoBid'', JBool False)]"
    by code_simp
  have k: "articleKey article_123456 = ''123456''" by code_simp
  have t: "hasOwnProperty article_123456 ''tabId''" by code_simp
  have m: "''tabId'' \<in> set windowKeys" by (simp add: windowKeys_def)
  have o: "\<forall>old. sync stored_123456 (articleKey article_123456) = Some old
             \<longrightarrow> \<not> hasOwnProperty old ''tabId''"
    by (simp add: k stored_123456_def hasOwnProperty_def)
  show ?thesis
    using updateInfoInStorage_window_keys
      [OF m o, of "\<lambda>s. JNaN" 1577979582486 "Some [(''maxBid'', JNum 12)]" False] w k t
    by simp
qed

section \<open>Properties of the articles table\<close>

lemma articleKey_setp_tabId: "articleKey (setp ''tabId'' v a) = articleKey a"
  by (simp add: articleKey_def getp_setp)

text \<open>
  C5. The claim: when the tab of an article closes, its tab id is unset, and a record
  without maximum bid and group is removed together with its logs. The code removes the
  row and leaves the logs in \<open>localStorage\<close>: article 123456, bound to tab 7, has no
  stored record and one log entry; after the call the table is empty and the log entry
  is still there.
\<close>

theorem removeArticleIfBoring_keeps_logs:
  "rows (removeArticleIfBoring (JNum 7)
     \<lparr>sync = Map.empty, settings = None,
      logs = [''123456'' \<mapsto> [[(''timestamp'', JNum 1577979582486), (''message'', JStr ''Tab: 7''),
                                (''component'', JStr ''Artikel''),
                                (''level'', JStr ''Aktualisierung'')]]],
      rows = [[(''articleId'', JStr ''123456''), (''articleGroup'', JNull),
               (''articleMaxBid'', JNull), (''articleAutoBid'', JBool False),
               (''tabId'', JNum 7)]]\<rparr>) = []
   \<and> logs (removeArticleIfBoring (JNum 7)
     \<lparr>sync = Map.empty, settings = None,
      logs = [''123456'' \<mapsto> [[(''timestamp'', JNum 1577979582486), (''message'', JStr ''Tab: 7''),
                                (''component'', JStr ''Artikel''),
                                (''level'', JStr ''Aktualisierung'')]]],
      rows = [[(''articleId'', JStr ''123456''), (''articleGroup'', JNull),
               (''articleMaxBid'', JNull), (''articleAutoBid'', JBool False),
               (''tabId'', JNum 7)]]\<rparr>) ''123456''
     = Some [[(''timestamp'', JNum 1577979582486), (''message'', JStr ''Tab: 7''),
              (''component'', JStr ''Artikel''), (''level'', JStr ''Aktualisierung'')]]"
  by code_simp

text \<open>
  C5, amended. For a tab id bound to row \<open>i\<close>, and a stored record that, if there is one,
  has the property \<open>articleMaxBid\<close> (every record written by \<open>updateInfoInStorage\<close> has
  it): the row is kept, with its tab id \<open>null\<close>, when the stored record has a maximum
  bid or a group other than \<open>null\<close>; otherwise, and when nothing is stored, the row is
  taken out of the table. The logs and the synchronized store are left as they were.
\<close>

theorem removeArticleIfBoring_rows:
  assumes "getArticleIdByTabId tabId w \<noteq> JNull"
    and "getArticleIdByTabId tabId w \<noteq> JUndefined"
    and "findRow (getArticleIdByTabId tabId w) (rows w) = Some i"
    and "\<forall>s. sync w (articleKey (rows w ! i)) = Some s \<longrightarrow> hasOwnProperty s ''articleMaxBid''"
  shows "rows (removeArticleIfBoring tabId w) =
           (if \<exists>s. sync w (articleKey (rows w ! i)) = Some s
                  \<and> ((getp s ''articleMaxBid'' \<noteq> JNull \<and> getp s ''articleMaxBid'' \<noteq> JUndefined)
                     \<or> (getp s ''articleGroup'' \<noteq> JNull \<and> getp s ''articleGroup'' \<noteq> JUndefined))
            then (rows w)[i := setp ''tabId'' JNull (rows w ! i)]
            else take i (rows w) @ drop (Suc i) (rows w))
     \<and> logs (removeArticleIfBoring tabId w) = logs w
     \<and> sync (removeArticleIfBoring tabId w) = sync w"
  using assms
  by (cases "sync w (articleKey (rows w ! i))")
     (simp_all add: removeArticleIfBoring_def Let_def getInfoFromStorage_def articleKey_setp_tabId)

theorem removeArticleIfBoring_rows_witness:
  "getArticleIdByTabId (JNum 7) stored_123456 = JStr ''123456''
   \<and> sync stored_123456 ''123456'' = Some [(''articleMaxBid'', JNum 10)]
   \<and> rows (removeArticleIfBoring (JNum 7) stored_123456) = [setp ''tabId'' JNull article_123456]
   \<and> getp (setp ''tabId'' JNull article_123456) ''tabId'' = JNull
   \<and> logs (removeArticleIfBoring (JNum 7) stored_123456) = logs stored_123456"
proof -
  have a: "getArticleIdByTabId (JNum 7) stored_123456 = JStr ''123456''" by code_simp
  have f: "findRow (getArticleIdByTabId (JNum 7) stored_123456) (rows stored_123456) = Some 0"
    unfolding a by code_simp
  have r: "rows stored_123456 = [article_123456]" by (simp add: stored_123456_def)
  have k: "articleKey article_123456 = ''123456''" by code_simp
  have s: "sync stored_123456 ''123456'' = Some [(''articleMaxBid'', JNum 10)]"
    by (simp add: stored_123456_def)
  have h: "\<forall>s. sync stored_123456 (articleKey (rows stored_123456 ! 0)) = Some s
             \<longrightarrow> hasOwnProperty s ''articleMaxBid''"
    by (simp add: r k s hasOwnProperty_def)
  have t: "getp (setp ''tabId'' JNull article_123456) ''tabId'' = JNull"
    by (simp add: getp_setp)
  show ?thesis
    using removeArticleIfBoring_rows [of "JNum 7" stored_123456 0] a f h r k s t
    by (simp add: getp_def)
qed

text \<open>A record in the short-key format of the earlier versions has no property
  \<open>articleMaxBid\<close>, and its row is taken out although a maximum bid is stored.\<close>

lemma removeArticleIfBoring_legacy_record:
  "rows (removeArticleIfBoring (JNum 7)
     \<lparr>sync = [''123456'' \<mapsto> [(''maxBid'', JNum 10), (''autoBid'', JBool True)]],
      settings = None, logs = Map.empty, rows = [article_123456]\<rparr>) = []"
  by code_simp

text \<open>The value that the handler puts into the row: the entry, lowered to the buy-now
  price less one cent when it is above the buy-now price, and otherwise raised to the
  minimum bid when it is below the minimum bid.\<close>

lemma changeMaxBid_value:
  assumes "parseFloat (replaceComma val) = JNum m"
    and "hasOwnProperty article ''articleBuyPrice'' \<longrightarrow> getp article ''articleBuyPrice'' = JNum b"
    and "hasOwnProperty article ''articleMinimumBid'' \<longrightarrow> getp article ''articleMinimumBid'' = JNum n"
  shows "getp (changeMaxBid parseFloat val article) ''articleMaxBid'' =
     (if hasOwnProperty article ''articleBuyPrice'' \<and> b < m
      then ofNumber (double (b - 5764607523034235 / 576460752303423488))
      else JNum (if hasOwnProperty article ''articleMinimumBid'' \<and> m < n then n else m))"
  using assms
  by (cases "hasOwnProperty article ''articleBuyPrice''";
      cases "hasOwnProperty article ''articleMinimumBid''")
     (simp_all add: changeMaxBid_def Let_def hasOwnProperty_setp getp_setp js_gt_def js_lt_def
        js_sub_cent)

lemma hasOwnProperty_changeMaxBid:
  "hasOwnProperty (changeMaxBid parseFloat val article) k
     = (k = ''articleMaxBid'' \<or> hasOwnProperty article k)"
  by (auto simp add: changeMaxBid_def Let_def hasOwnProperty_setp)

lemma uniqueKeys_changeMaxBid:
  "uniqueKeys article \<Longrightarrow> uniqueKeys (changeMaxBid parseFloat val article)"
  by (simp add: changeMaxBid_def Let_def uniqueKeys_setp)

lemma articleKey_changeMaxBid:
  "articleKey (changeMaxBid parseFloat val article) = articleKey article"
  by (simp add: changeMaxBid_def Let_def articleKey_def getp_setp)

lemma uniqueKeys_convertKey:
  "uniqueKeys (fst r) \<Longrightarrow> uniqueKeys (fst (convertKey short long r))"
  by (cases r) (simp add: convertKey_def uniqueKeys_setp uniqueKeys_deletep)

lemma uniqueKeys_convertKeys: "uniqueKeys ob \<Longrightarrow> uniqueKeys (fst (convertKeys ob))"
  by (simp add: convertKeys_def Let_def uniqueKeys_convertKey)

lemma findRow_less: "findRow articleId rs = Some i \<Longrightarrow> i < length rs"
proof -
  assume "findRow articleId rs = Some i"
  then obtain xs where
    "filter (\<lambda>i. strictEq (getp (rs ! i) ''articleId'') articleId) [0..<length rs] = i # xs"
    by (auto simp add: findRow_def split: list.splits)
  then have "i \<in> set (filter (\<lambda>i. strictEq (getp (rs ! i) ''articleId'') articleId)
                       [0..<length rs])"
    by simp
  then show ?thesis by simp
qed

lemma rows_addLog: "rows (addLog now this m w) = rows w"
  by (simp add: addLog_def Let_def)

lemma rows_updateInfoInStorage:
  "rows (updateInfoInStorage parseFloat now this info onlyIfExists w) = rows w"
  by (simp add: updateInfoInStorage_def Let_def rows_addLog)

text \<open>What \<open>updateInfoInStorage\<close> leaves in the store for a property of the article in
  memory: the article's properties are merged over the incoming information and over the
  stored record, so that the stored record has the article's value afterwards, whether
  the record is written or, nothing having changed, left as it is.\<close>

lemma updateInfoInStorage_stores:
  assumes uniq: "uniqueKeys this"
    and long: "\<forall>s. sync w (articleKey this) = Some s
                 \<longrightarrow> (\<forall>k \<in> set shortKeys. \<not> hasOwnProperty s k)"
    and k: "hasOwnProperty this k" "k \<notin> set windowKeys" "k \<noteq> ''articleAuctionState''"
    and v: "getp this k \<noteq> JUndefined"
  shows "\<exists>r. sync (updateInfoInStorage parseFloat now this info False w) (articleKey this) = Some r
              \<and> getp r k = getp this k"
proof -
  define old where
    "old = (case sync w (articleKey this) of None \<Rightarrow> [] | Some s \<Rightarrow> fst (convertKeys s))"
  define info' where "info' = (case info of
                          None \<Rightarrow> []
                        | Some i \<Rightarrow>
                            if hasOwnProperty i ''maxBid'' then
                              (case getp i ''maxBid'' of
                                 JStr s \<Rightarrow> setp ''maxBid'' (parseFloat (replaceComma s)) i
                               | _ \<Rightarrow> i)
                            else i)"
  define new where "new = deletep ''articleDetailsShown'' (deletep ''tabId'' (deletep ''popup''
                      (assign (fst (convertKeys (assign [] info'))) this)))"
  define merged where "merged = assign (assign [] old) new"
  have kw: "k \<noteq> ''popup''" "k \<noteq> ''tabId''" "k \<noteq> ''articleDetailsShown''"
    using k(2) by (simp_all add: windowKeys_def)
  have new_k: "getp new k = getp this k"
    using uniq k(1) kw by (simp add: new_def getp_deletep getp_assign)
  have new_has: "hasOwnProperty new k"
    using k(1) kw by (simp add: new_def hasOwnProperty_deletep hasOwnProperty_assign)
  have new_uniq: "uniqueKeys new"
    by (simp add: new_def uniqueKeys_deletep uniqueKeys_assign uniqueKeys_convertKeys
        uniqueKeys_empty)
  have merged_k: "getp merged k = getp this k"
    using new_uniq new_has new_k by (simp add: merged_def getp_assign)
  have res: "updateInfoInStorage parseFloat now this info False w =
      (if diffKeys old new \<noteq> [] then
         (let w1 = addLog now this
                     [(''component'', JStr ''Artikel''), (''level'', JStr ''Einstellungen''),
                      (''message'', JArr (map JStr (diffKeys old new)))] w
          in w1\<lparr>sync := (sync w1)(articleKey this \<mapsto> merged)\<rparr>)
       else w)"
    by (simp add: updateInfoInStorage_def Let_def old_def info'_def new_def merged_def)
  show ?thesis
  proof (cases "diffKeys old new = []")
    case False
    then show ?thesis using merged_k by (simp add: res Let_def)
  next
    case True
    have "k \<in> set (map fst new)"
      using new_has by (simp add: hasOwnProperty_def map_of_eq_None_iff)
    then have "strictEq (getp old k) (getp new k)"
      using True k(3) by (auto simp add: diffKeys_def filter_empty_conv)
    then have eq: "getp old k = getp this k" using new_k by (simp add: strictEq_eq)
    show ?thesis
    proof (cases "sync w (articleKey this)")
      case None
      then have "getp old k = JUndefined" by (simp add: old_def getp_def)
      then show ?thesis using eq v by simp
    next
      case (Some s)
      then have "convertKeys s = (s, 0)" using long by (simp add: convertKeys_no_short)
      then have "old = s" using Some by (simp add: old_def)
      then show ?thesis using Some eq True by (simp add: res)
    qed
  qed
qed

text \<open>
  C6. The claim: after a maximum bid is entered and merged, \<open>maxBid \<le> buyNowPrice - 0.01\<close>
  when a buy-now price is defined. The handler lowers the entry only when it is greater
  than the buy-now price. With a buy-now price of 10 and a minimum bid of 1, the entry 10
  stays 10 in the row and is stored as 10, while \<open>10 - 0.01\<close> is the double 9.99, below
  10.
\<close>

theorem maxBidInputChanged_at_buy_price:
  "rows (maxBidInputChanged (\<lambda>s. if s = ''10'' then JNum 10 else JNaN) 1577979582486
           (JStr ''123456'') ''10''
           \<lparr>sync = Map.empty, settings = None, logs = Map.empty,
            rows = [[(''articleId'', JStr ''123456''), (''articleBuyPrice'', JNum 10),
                     (''articleMinimumBid'', JNum 1)]]\<rparr>)
     = [[(''articleId'', JStr ''123456''), (''articleBuyPrice'', JNum 10),
         (''articleMinimumBid'', JNum 1), (''articleMaxBid'', JNum 10)]]
   \<and> sync (maxBidInputChanged (\<lambda>s. if s = ''10'' then JNum 10 else JNaN) 1577979582486
           (JStr ''123456'') ''10''
           \<lparr>sync = Map.empty, settings = None, logs = Map.empty,
            rows = [[(''articleId'', JStr ''123456''), (''articleBuyPrice'', JNum 10),
                     (''articleMinimumBid'', JNum 1)]]\<rparr>) ''123456''
     = Some [(''articleMaxBid'', JNum 10), (''articleId'', JStr ''123456''),
             (''articleBuyPrice'', JNum 10), (''articleMinimumBid'', JNum 1)]
   \<and> js_sub (JNum 10) cent = ofNumber (double (999 / 100))
   \<and> js_gt (JNum 10) (js_sub (JNum 10) cent)"
  by code_simp

text \<open>
  C6, amended. A maximum bid is entered into the input of row \<open>i\<close> of the popup's table.
  The row has each property once, the record stored for the article, if there is one, has
  no short keys, the entry parses to the number \<open>m\<close>, and the buy-now price \<open>b\<close> and the
  minimum bid \<open>n\<close> of the row are numbers where the row has them. Then the maximum bid of
  the row after the handler is: \<open>b - 0.01\<close>, as the double subtraction gives it, when
  the row has a buy-now price and \<open>m\<close> is greater than it; otherwise \<open>n\<close> when the row has
  a minimum bid and \<open>m\<close> is less than it; otherwise \<open>m\<close>. The record stored for the
  article after the handler has the same maximum bid.
\<close>

theorem maxBidInputChanged_maxBid:
  assumes row: "findRow articleId (rows w) = Some i"
    and uniq: "uniqueKeys (rows w ! i)"
    and long: "\<forall>s. sync w (articleKey (rows w ! i)) = Some s
                 \<longrightarrow> (\<forall>k \<in> set shortKeys. \<not> hasOwnProperty s k)"
    and m: "parseFloat (replaceComma val) = JNum m"
    and b: "hasOwnProperty (rows w ! i) ''articleBuyPrice''
              \<longrightarrow> getp (rows w ! i) ''articleBuyPrice'' = JNum b"
    and n: "hasOwnProperty (rows w ! i) ''articleMinimumBid''
              \<longrightarrow> getp (rows w ! i) ''articleMinimumBid'' = JNum n"
  shows "getp (rows (maxBidInputChanged parseFloat now articleId val w) ! i) ''articleMaxBid'' =
           (if hasOwnProperty (rows w ! i) ''articleBuyPrice'' \<and> b < m
            then ofNumber (double (b - 5764607523034235 / 576460752303423488))
            else JNum (if hasOwnProperty (rows w ! i) ''articleMinimumBid'' \<and> m < n
                       then n else m))
     \<and> (\<exists>r. sync (maxBidInputChanged parseFloat now articleId val w) (articleKey (rows w ! i))
                = Some r
              \<and> getp r ''articleMaxBid'' =
                  getp (rows (maxBidInputChanged parseFloat now articleId val w) ! i)
                    ''articleMaxBid'')"
proof -
  define article where "article = changeMaxBid parseFloat val (rows w ! i)"
  define w1 where "w1 = w\<lparr>rows := (rows w)[i := article]\<rparr>"
  define info where "info =
     (let info = [];
          info = (if hasOwnProperty article ''articleMaxBid''
                  then setp ''maxBid'' (getp article ''articleMaxBid'') info else info);
          info = (if hasOwnProperty article ''articleAutoBid''
                  then setp ''autoBid'' (getp article ''articleAutoBid'') info else info);
          info = (if hasOwnProperty article ''articleGroup''
                  then setp ''group'' (getp article ''articleGroup'') info else info)
      in info)"
  have res: "maxBidInputChanged parseFloat now articleId val w
               = updateInfoInStorage parseFloat now article (Some info) False w1"
    using row by (simp add: maxBidInputChanged_def Let_def article_def w1_def info_def)
  have i: "i < length (rows w)" using row by (rule findRow_less)
  have rows: "rows (updateInfoInStorage parseFloat now article (Some info) False w1) ! i = article"
    using i by (simp add: rows_updateInfoInStorage w1_def)
  have val: "getp article ''articleMaxBid'' =
           (if hasOwnProperty (rows w ! i) ''articleBuyPrice'' \<and> b < m
            then ofNumber (double (b - 5764607523034235 / 576460752303423488))
            else JNum (if hasOwnProperty (rows w ! i) ''articleMinimumBid'' \<and> m < n
                       then n else m))"
    unfolding article_def using m b n by (rule changeMaxBid_value)
  have key: "articleKey article = articleKey (rows w ! i)"
    by (simp add: article_def articleKey_changeMaxBid)
  have defined: "getp article ''articleMaxBid'' \<noteq> JUndefined"
    by (simp add: val ofNumber_defined)
  have stored: "\<exists>r. sync (updateInfoInStorage parseFloat now article (Some info) False w1)
                       (articleKey article) = Some r
              \<and> getp r ''articleMaxBid'' = getp article ''articleMaxBid''"
  proof (rule updateInfoInStorage_stores)
    show "uniqueKeys article" using uniq by (simp add: article_def uniqueKeys_changeMaxBid)
    show "\<forall>s. sync w1 (articleKey article) = Some s
             \<longrightarrow> (\<forall>k \<in> set shortKeys. \<not> hasOwnProperty s k)"
      using long by (simp add: key w1_def)
    show "hasOwnProperty article ''articleMaxBid''"
      by (simp add: article_def hasOwnProperty_changeMaxBid)
    show "''articleMaxBid'' \<notin> set windowKeys" by (simp add: windowKeys_def)
    show "''articleMaxBid'' \<noteq> ''articleAuctionState''" by simp
    show "getp article ''articleMaxBid'' \<noteq> JUndefined" by (rule defined)
  qed
  show ?thesis
    unfolding res rows
  proof (rule conjI)
    show "getp article ''articleMaxBid'' =
           (if hasOwnProperty (rows w ! i) ''articleBuyPrice'' \<and> b < m
            then ofNumber (double (b - 5764607523034235 / 576460752303423488))
            else JNum (if hasOwnProperty (rows w ! i) ''articleMinimumBid'' \<and> m < n
                       then n else m))"
      by (rule val)
    show "\<exists>r. sync (updateInfoInStorage parseFloat now article (Some info) False w1)
                (articleKey (rows w ! i)) = Some r
              \<and> getp r ''articleMaxBid'' = getp article ''articleMaxBid''"
      using stored by (simp only: key)
  qed
qed

theorem maxBidInputChanged_maxBid_witness:
  "findRow (JStr ''123456'') (rows priced_123456) = Some 0
   \<and> replaceComma ''12,5'' = ''12.5''
   \<and> getp (rows (maxBidInputChanged (\<lambda>s. if s = ''12.5'' then JNum (25 / 2) else JNaN)
                    1577979582486 (JStr ''123456'') ''12,5'' priced_123456) ! 0) ''articleMaxBid''
       = JNum (5623870034678907 / 562949953421312)
   \<and> (\<exists>r. sync (maxBidInputChanged (\<lambda>s. if s = ''12.5'' then JNum (25 / 2) else JNaN)
                    1577979582486 (JStr ''123456'') ''12,5'' priced_123456) ''123456'' = Some r
            \<and> getp r ''articleMaxBid'' = JNum (5623870034678907 / 562949953421312))"
proof -
  have row: "findRow (JStr ''123456'') (rows priced_123456) = Some 0" by code_simp
  have uniq: "uniqueKeys (rows priced_123456 ! 0)" by code_simp
  have key: "articleKey (rows priced_123456 ! 0) = ''123456''" by code_simp
  have long: "\<forall>s. sync priced_123456 (articleKey (rows priced_123456 ! 0)) = Some s
                 \<longrightarrow> (\<forall>k \<in> set shortKeys. \<not> hasOwnProperty s k)"
    by (simp add: priced_123456_def)
  have c: "replaceComma ''12,5'' = ''12.5''" by code_simp
  have m: "(\<lambda>s. if s = ''12.5'' then JNum (25 / 2) else JNaN) (replaceComma ''12,5'')
             = JNum (25 / 2)"
    by (simp add: c)
  have hb: "hasOwnProperty (rows priced_123456 ! 0) ''articleBuyPrice''" by code_simp
  have gb: "getp (rows priced_123456 ! 0) ''articleBuyPrice'' = JNum 10" by code_simp
  have gn: "getp (rows priced_123456 ! 0) ''articleMinimumBid'' = JNum 1" by code_simp
  have d: "ofNumber (double (10 - 5764607523034235 / 576460752303423488))
             = JNum (5623870034678907 / 562949953421312)"
    by code_simp
  have b: "hasOwnProperty (rows priced_123456 ! 0) ''articleBuyPrice''
              \<longrightarrow> getp (rows priced_123456 ! 0) ''articleBuyPrice'' = JNum 10"
    by (simp add: gb)
  have n: "hasOwnProperty (rows priced_123456 ! 0) ''articleMinimumBid''
              \<longrightarrow> getp (rows priced_123456 ! 0) ''articleMinimumBid'' = JNum 1"
    by (simp add: gn)
  show ?thesis
    using maxBidInputChanged_maxBid
      [of "JStr ''123456''" priced_123456 0
          "\<lambda>s. if s = ''12.5'' then JNum (25 / 2) else JNaN" "''12,5''" "25 / 2" 10 1
          1577979582486]
      row uniq long m b n hb d key c
    by auto
qed

text \<open>The bounds that follow. When the entry is not above a buy-now price of the row,
  the maximum bid is a number \<open>r\<close> with \<open>n \<le> r\<close> if the row has a minimum bid, and with
  \<open>r \<le> b\<close> if the row has a buy-now price and its minimum bid, if it has one, is not
  above the buy-now price.\<close>

lemma changeMaxBid_bounds:
  assumes "parseFloat (replaceComma val) = JNum m"
    and "hasOwnProperty article ''articleBuyPrice'' \<longrightarrow> getp article ''articleBuyPrice'' = JNum b"
    and "hasOwnProperty article ''articleMinimumBid'' \<longrightarrow> getp article ''articleMinimumBid'' = JNum n"
    and "\<not> (hasOwnProperty article ''articleBuyPrice'' \<and> b < m)"
  shows "\<exists>r. getp (changeMaxBid parseFloat val article) ''articleMaxBid'' = JNum r
     \<and> (hasOwnProperty article ''articleMinimumBid'' \<longrightarrow> n \<le> r)
     \<and> (hasOwnProperty article ''articleBuyPrice''
          \<and> (hasOwnProperty article ''articleMinimumBid'' \<longrightarrow> n \<le> b) \<longrightarrow> r \<le> b)"
proof -
  have v: "getp (changeMaxBid parseFloat val article) ''articleMaxBid'' =
     JNum (if hasOwnProperty article ''articleMinimumBid'' \<and> m < n then n else m)"
    using changeMaxBid_value [of parseFloat val m article b n] assms by simp
  show ?thesis
    unfolding v using assms(4) by auto
qed

text \<open>When the entry is above the buy-now price, the minimum bid is not looked at, and
  the subtraction is rounded: with a buy-now price of 19.99 and a minimum bid of 19.98
  the entry 25 becomes 19.979999999999997, below the minimum bid.\<close>

lemma changeMaxBid_below_minimum:
  "js_lt (getp (changeMaxBid (\<lambda>s. if s = ''25'' then JNum 25 else JNaN) ''25''
                 [(''articleId'', JStr ''123456''),
                  (''articleBuyPrice'', ofNumber (double (1999 / 100))),
                  (''articleMinimumBid'', ofNumber (double (1998 / 100)))]) ''articleMaxBid'')
         (ofNumber (double (1998 / 100)))
   \<and> getp (changeMaxBid (\<lambda>s. if s = ''25'' then JNum 25 else JNaN) ''25''
                 [(''articleId'', JStr ''123456''),
                  (''articleBuyPrice'', ofNumber (double (1999 / 100))),
                  (''articleMinimumBid'', ofNumber (double (1998 / 100)))]) ''articleMaxBid''
       = JNum (2811935017339453 / 140737488355328)"
  by code_simp

section \<open>Properties of the bid time\<close>

lemma insertBy_insort_key:
  "(\<forall>y \<in> set ys. js_gt (c x y) (JNum 0) = (g y < g x)) \<Longrightarrow> insertBy c x ys = insort_key g x ys"
  by (induction ys) (auto simp add: not_le)

lemma sortBy_sort_key:
  "(\<forall>x \<in> set xs. \<forall>y \<in> set xs. js_gt (c x y) (JNum 0) = (g y < g x))
   \<Longrightarrow> sortBy c xs = sort_key g xs"
proof (induction xs)
  case Nil
  then show ?case by (simp add: sortBy_def)
next
  case (Cons x xs)
  have ih: "sortBy c xs = sort_key g xs" using Cons by simp
  have "sortBy c (x # xs) = insertBy c x (sortBy c xs)" by (simp add: sortBy_def)
  also have "\<dots> = insertBy c x (sort_key g xs)" by (simp add: ih)
  also have "\<dots> = insort_key g x (sort_key g xs)"
    using Cons.prems by (intro insertBy_insort_key) simp
  finally show ?case by simp
qed

lemma indexOf_nonneg_iff: "(0 \<le> indexOf x ys) = (x \<in> set ys)"
  by (induction ys) (auto simp add: Let_def)

lemma indexOf_sorted:
  "distinct ys \<Longrightarrow> sorted (map g ys) \<Longrightarrow> inj_on g (set ys) \<Longrightarrow> j \<in> set ys
   \<Longrightarrow> indexOf j ys = int (card {i \<in> set ys. g i < g j})"
proof (induction ys)
  case Nil
  then show ?case by simp
next
  case (Cons y ys)
  show ?case
  proof (cases "j = y")
    case True
    have "{i \<in> set (y # ys). g i < g j} = {}"
      using Cons.prems(2) True by (auto simp add: not_less)
    then show ?thesis using True by simp
  next
    case False
    then have jin: "j \<in> set ys" using Cons.prems(4) by simp
    have ih: "indexOf j ys = int (card {i \<in> set ys. g i < g j})"
      using Cons jin by simp
    have "g y \<le> g j" using Cons.prems(2) jin by simp
    moreover have "g y \<noteq> g j"
      using Cons.prems(3) False jin by (auto simp add: inj_on_def)
    ultimately have lt: "g y < g j" by simp
    have "{i \<in> set (y # ys). g i < g j} = insert y {i \<in> set ys. g i < g j}"
      using lt by auto
    moreover have "y \<notin> {i \<in> set ys. g i < g j}" using Cons.prems(1) by simp
    ultimately have "card {i \<in> set (y # ys). g i < g j} = Suc (card {i \<in> set ys. g i < g j})"
      by simp
    then show ?thesis using False ih by (simp add: Let_def)
  qed
qed

lemma fold_findKey:
  "(\<forall>i \<in> set xs. P i = (i = j)) \<Longrightarrow>
   fold (\<lambda>prop key. if P prop then Some prop else key) xs acc = (if j \<in> set xs then Some j else acc)"
  by (induction xs arbitrary: acc) auto

text \<open>The decimal string of a natural number is read back as that number.\<close>

lemma of_char_digit: "d < 10 \<Longrightarrow> of_char (digit d) = 48 + int d"
proof -
  assume "d < 10"
  then have "(of_char (digit d) :: nat) = 48 + d" by (simp add: digit_def)
  then have "int (of_char (digit d)) = 48 + int d" by simp
  then show ?thesis by (simp only: of_nat_of_char)
qed

lemma isDigit_digit: "d < 10 \<Longrightarrow> isDigit (digit d)"
  by (simp add: isDigit_def digit_def)

lemma isDigit_dec: "list_all isDigit (dec n)"
proof (induction n rule: dec.induct)
  case (1 n)
  show ?case
  proof (cases "n < 10")
    case True
    then show ?thesis by (subst dec.simps) (simp add: isDigit_digit)
  next
    case False
    then show ?thesis using 1 by (subst dec.simps) (simp add: isDigit_digit)
  qed
qed

lemma digitsValue_snoc: "digitsValue (s @ [c]) = 10 * digitsValue s + (of_char c - 48)"
  by (simp add: digitsValue_def)

lemma digitsValue_dec: "digitsValue (dec n) = int n"
proof (induction n rule: dec.induct)
  case (1 n)
  show ?case
  proof (cases "n < 10")
    case True
    then show ?thesis by (subst dec.simps) (simp add: digitsValue_def of_char_digit)
  next
    case False
    then have "digitsValue (dec (n div 10)) = int (n div 10)" using 1 by simp
    then have "digitsValue (dec n) = 10 * int (n div 10) + int (n mod 10)"
      using False by (subst dec.simps) (simp add: digitsValue_snoc of_char_digit)
    then show ?thesis by (simp add: zdiv_int zmod_int)
  qed
qed

lemma dec_eq_iff: "(dec x = dec y) = (x = y)"
proof
  assume "dec x = dec y"
  then have "digitsValue (dec x) = digitsValue (dec y)" by simp
  then show "x = y" by (simp add: digitsValue_dec)
qed simp

lemma toNumber_dec: "n \<le> 2 ^ 53 \<Longrightarrow> toNumber (JStr (dec n)) = Finite (of_nat n)"
proof -
  assume "n \<le> 2 ^ 53"
  then have "\<bar>int n\<bar> \<le> 2 ^ 53" by (simp add: of_nat_le_iff [of n "2 ^ 53", where ?'a = int, simplified])
  then have "double (of_int (int n)) = Finite (of_int (int n))" by (rule double_of_int)
  then show ?thesis by (simp add: strToNumber_def isDigit_dec digitsValue_dec)
qed

text \<open>Differences and small multiples of natural numbers up to \<open>2^53\<close> are exact.\<close>

lemma sub64_nat:
  assumes "x \<le> 2 ^ 53" and "y \<le> 2 ^ 53"
  shows "sub64 (Finite (of_nat x)) (Finite (of_nat y)) = Finite (of_int (int x - int y))"
proof -
  have "int x \<le> 2 ^ 53" "int y \<le> 2 ^ 53"
    using assms by (simp_all add: of_nat_le_iff [where ?'a = int, of _ "2 ^ 53", simplified])
  then have "\<bar>int x - int y\<bar> \<le> 2 ^ 53" by simp
  then have "double (of_int (int x - int y)) = Finite (of_int (int x - int y))"
    by (rule double_of_int)
  then show ?thesis by simp
qed

lemma js_mul_rank:
  assumes "0 \<le> r" and "r \<le> 2 ^ 32"
  shows "js_mul (js_mul (JNum (of_int r)) (JNum 2)) (JNum 1000) = JNum (of_int (r * 2000))"
proof -
  have "\<bar>r * 2\<bar> \<le> 2 ^ 53" using assms by simp
  then have a: "double (of_int (r * 2)) = Finite (of_int (r * 2))" by (rule double_of_int)
  have "\<bar>r * 2000\<bar> \<le> 2 ^ 53" using assms by simp
  then have b: "double (of_int (r * 2000)) = Finite (of_int (r * 2000))" by (rule double_of_int)
  have p: "of_int r * 2 = (of_int (r * 2) :: rat)" by simp
  have q: "of_int (r * 2) * 1000 = (of_int (r * 2000) :: rat)" by simp
  have m1: "mul64 (Finite (of_int r)) (Finite 2) = Finite (of_int (r * 2))"
    by (simp only: mul64.simps p a)
  have m2: "mul64 (Finite (of_int (r * 2))) (Finite 1000) = Finite (of_int (r * 2000))"
    by (simp only: mul64.simps q b)
  show ?thesis
    by (simp only: js_mul_def toNumber.simps ofNumber.simps m1 m2)
qed

lemma js_sub_rank:
  assumes "t \<le> 2 ^ 53" and "0 \<le> r" and "r \<le> 2 ^ 32"
  shows "js_sub (JNum (of_nat t)) (JNum (of_int (r * 2000))) = JNum (of_int (int t - r * 2000))"
proof -
  have "int t \<le> 2 ^ 53"
    using assms(1) by (simp add: of_nat_le_iff [where ?'a = int, of _ "2 ^ 53", simplified])
  then have "\<bar>int t - r * 2000\<bar> \<le> 2 ^ 53" using assms by simp
  then have "double (of_int (int t - r * 2000)) = Finite (of_int (int t - r * 2000))"
    by (rule double_of_int)
  then show ?thesis by (simp add: js_sub_def)
qed

text \<open>For end times that are whole numbers of milliseconds up to \<open>2^53\<close>, two articles
  end together when their end times differ by less than 1000 ms.\<close>

lemma coEnding_times:
  assumes "getp this ''articleEndTime'' = JNum (of_nat t)" and "t \<le> 2 ^ 53"
    and "hasOwnProperty article ''articleEndTime''
           \<longrightarrow> getp article ''articleEndTime'' = JNum (of_nat e) \<and> e \<le> 2 ^ 53"
  shows "coEnding this article
           = (hasOwnProperty article ''articleEndTime'' \<and> \<bar>int e - int t\<bar> < 1000)"
proof (cases "hasOwnProperty article ''articleEndTime''")
  case False
  then show ?thesis by (simp add: coEnding_def)
next
  case True
  then have e: "getp article ''articleEndTime'' = JNum (of_nat e)" "e \<le> 2 ^ 53"
    using assms(3) by simp_all
  have "js_sub (getp article ''articleEndTime'') (getp this ''articleEndTime'')
          = JNum (of_int (int e - int t))"
    using sub64_nat [OF e(2) assms(2)] by (simp add: js_sub_def e(1) assms(1))
  then have "js_lt (js_abs (js_sub (getp article ''articleEndTime'') (getp this ''articleEndTime'')))
               (JNum 1000) = (\<bar>of_int (int e - int t) :: rat\<bar> < 1000)"
    by (simp add: js_abs_def js_lt_def)
  also have "\<dots> = (\<bar>int e - int t\<bar> < 1000)"
    by (metis of_int_abs of_int_less_iff of_int_numeral)
  finally show ?thesis using True by (simp add: coEnding_def)
qed

text \<open>
  C4. The claim: the articles that end within 1000 ms of the target are sorted ascending
  by numeric article id, and the target's bid time is its end time minus 2000 ms times
  its rank. The comparator subtracts the ids as doubles, and above \<open>2^53\<close> two different
  ids can be the same double: the ids 9007199254740993 and 9007199254740992 have the
  difference 0, the sort leaves the two rows in the order of the table, and the article
  with the smaller id bids 2000 ms early while the one with the greater id bids at the
  end time.
\<close>

theorem getAdjustedBidTime_ids_beyond_2_53:
  "js_sub (JStr ''9007199254740993'') (JStr ''9007199254740992'') = JNum 0
   \<and> getAdjustedBidTime
        [(''articleId'', JStr ''9007199254740992''), (''articleEndTime'', JNum 1577979582486)]
        (Some [[(''articleId'', JStr ''9007199254740993''), (''articleEndTime'', JNum 1577979582486)],
               [(''articleId'', JStr ''9007199254740992''), (''articleEndTime'', JNum 1577979582486)]])
       = JNum (1577979582486 - 2000)
   \<and> getAdjustedBidTime
        [(''articleId'', JStr ''9007199254740993''), (''articleEndTime'', JNum 1577979582486)]
        (Some [[(''articleId'', JStr ''9007199254740993''), (''articleEndTime'', JNum 1577979582486)],
               [(''articleId'', JStr ''9007199254740992''), (''articleEndTime'', JNum 1577979582486)]])
       = JNum 1577979582486"
  by code_simp

text \<open>
  C4, amended. The table has at most \<open>2^32\<close> rows and the target is its row \<open>j\<close>. Every
  end time in the table is a whole number of milliseconds \<open>e i\<close> up to \<open>2^53\<close>, and the
  target has one. The selected rows are those that have an end time with
  \<open>\<bar>e i - e j\<bar> < 1000\<close>; the id of a selected row is the decimal string of a number \<open>a i\<close>
  up to \<open>2^53\<close>, and no two selected rows have the same number. Then
  \<open>getAdjustedBidTime\<close> returns \<open>e j\<close> minus 2000 ms for each selected row whose id
  is smaller than the target's, which is 2000 ms times the target's rank in the
  ascending order of the ids; and when the target is the only selected row, it returns
  \<open>e j\<close>. The result is a function of the target and the rows alone.
\<close>

theorem getAdjustedBidTime_rank:
  fixes e a :: "nat \<Rightarrow> nat"
  assumes j: "j < length articles"
    and len: "length articles \<le> 2 ^ 32"
    and tj: "hasOwnProperty (articles ! j) ''articleEndTime''"
    and et: "\<forall>i < length articles. hasOwnProperty (articles ! i) ''articleEndTime''
               \<longrightarrow> getp (articles ! i) ''articleEndTime'' = JNum (of_nat (e i)) \<and> e i \<le> 2 ^ 53"
    and ids: "\<forall>i < length articles.
                hasOwnProperty (articles ! i) ''articleEndTime'' \<and> \<bar>int (e i) - int (e j)\<bar> < 1000
                \<longrightarrow> getp (articles ! i) ''articleId'' = JStr (dec (a i)) \<and> a i \<le> 2 ^ 53"
    and dist: "\<forall>i < length articles. \<forall>i' < length articles.
                hasOwnProperty (articles ! i) ''articleEndTime'' \<and> \<bar>int (e i) - int (e j)\<bar> < 1000
                \<and> hasOwnProperty (articles ! i') ''articleEndTime'' \<and> \<bar>int (e i') - int (e j)\<bar> < 1000
                \<and> a i = a i' \<longrightarrow> i = i'"
  shows "getAdjustedBidTime (articles ! j) (Some articles) =
           JNum (of_int (int (e j) - 2000 * int (card {i. i < length articles
                   \<and> hasOwnProperty (articles ! i) ''articleEndTime''
                   \<and> \<bar>int (e i) - int (e j)\<bar> < 1000 \<and> a i < a j})))
     \<and> ((\<forall>i < length articles.
            hasOwnProperty (articles ! i) ''articleEndTime'' \<and> \<bar>int (e i) - int (e j)\<bar> < 1000
            \<longrightarrow> i = j)
          \<longrightarrow> getAdjustedBidTime (articles ! j) (Some articles) = JNum (of_nat (e j)))"
proof -
  define this where "this = articles ! j"
  define sel where "sel = (\<lambda>i. hasOwnProperty (articles ! i) ''articleEndTime''
                              \<and> \<bar>int (e i) - int (e j)\<bar> < 1000)"
  define filtered where "filtered = filter (\<lambda>i. coEnding this (articles ! i)) [0..<length articles]"
  define c where "c = (\<lambda>a b. js_sub (getp (articles ! a) ''articleId'') (getp (articles ! b) ''articleId''))"
  have tt: "getp this ''articleEndTime'' = JNum (of_nat (e j))" "e j \<le> 2 ^ 53"
    using et j tj by (simp_all add: this_def)
  have co: "coEnding this (articles ! i) = sel i" if "i < length articles" for i
    unfolding sel_def using tt et that by (intro coEnding_times) simp_all
  have set_f: "set filtered = {i. i < length articles \<and> sel i}"
    using co by (auto simp add: filtered_def)
  have dist_f: "distinct filtered" by (simp add: filtered_def)
  have j_f: "j \<in> set filtered" using j tj by (simp add: set_f sel_def)
  have id_f: "getp (articles ! i) ''articleId'' = JStr (dec (a i))" "a i \<le> 2 ^ 53"
    if "i \<in> set filtered" for i
    using ids that by (simp_all add: set_f sel_def)
  have inj: "inj_on a (set filtered)"
    unfolding inj_on_def
  proof (intro ballI impI)
    fix x y assume "x \<in> set filtered" "y \<in> set filtered" "a x = a y"
    then show "x = y" using dist by (simp add: set_f sel_def)
  qed
  have cmp: "\<forall>x \<in> set filtered. \<forall>y \<in> set filtered. js_gt (c x y) (JNum 0) = (a y < a x)"
  proof (intro ballI)
    fix x y assume x: "x \<in> set filtered" and y: "y \<in> set filtered"
    have tx: "toNumber (getp (articles ! x) ''articleId'') = Finite (of_nat (a x))"
      using id_f [OF x] by (simp only: toNumber_dec)
    have ty: "toNumber (getp (articles ! y) ''articleId'') = Finite (of_nat (a y))"
      using id_f [OF y] by (simp only: toNumber_dec)
    have "c x y = ofNumber (sub64 (Finite (of_nat (a x))) (Finite (of_nat (a y))))"
      by (simp only: c_def js_sub_def tx ty)
    then have "c x y = JNum (of_int (int (a x) - int (a y)))"
      using id_f [OF x] id_f [OF y] by (simp only: sub64_nat ofNumber.simps)
    then show "js_gt (c x y) (JNum 0) = (a y < a x)"
      by (simp add: js_gt_def)
  qed
  have keys: "sortBy c filtered = sort_key a filtered"
    using cmp by (rule sortBy_sort_key)
  have match: "\<forall>i \<in> set filtered.
      strictEq (getp (articles ! i) ''articleId'') (getp this ''articleId'') = (i = j)"
  proof
    fix i assume i: "i \<in> set filtered"
    have "strictEq (getp (articles ! i) ''articleId'') (getp this ''articleId'') = (a j = a i)"
      by (simp add: this_def id_f [OF i] id_f [OF j_f] dec_eq_iff)
    also have "\<dots> = (i = j)" using inj i j_f by (auto simp add: inj_on_def)
    finally show "strictEq (getp (articles ! i) ''articleId'') (getp this ''articleId'') = (i = j)" .
  qed
  have idx: "findKey articles filtered (getp this ''articleId'') = Some j"
    unfolding findKey_def using fold_findKey [OF match] j_f by simp
  have sk: "distinct (sort_key a filtered)" "sorted (map a (sort_key a filtered))"
    "set (sort_key a filtered) = set filtered"
    using dist_f by simp_all
  define r where "r = int (card {i \<in> set filtered. a i < a j})"
  have rank: "indexOf j (sort_key a filtered) = r"
    unfolding r_def using indexOf_sorted [of "sort_key a filtered" a j] sk inj j_f by simp
  have "card {i \<in> set filtered. a i < a j} \<le> card (set filtered)"
    by (rule card_mono) auto
  also have "\<dots> \<le> length filtered" by (rule card_length)
  also have "\<dots> \<le> length articles"
    using length_filter_le [of "\<lambda>i. coEnding this (articles ! i)" "[0..<length articles]"]
    by (simp add: filtered_def)
  also have "\<dots> \<le> 2 ^ 32" by (rule len)
  finally have "int (card {i \<in> set filtered. a i < a j}) \<le> int (2 ^ 32)"
    by (simp only: of_nat_le_iff)
  then have r_le: "r \<le> 2 ^ 32" by (simp add: r_def)
  have r_ge: "0 \<le> r" by (simp add: r_def)
  have cardeq: "{i \<in> set filtered. a i < a j} =
      {i. i < length articles \<and> hasOwnProperty (articles ! i) ''articleEndTime''
          \<and> \<bar>int (e i) - int (e j)\<bar> < 1000 \<and> a i < a j}"
    by (auto simp add: set_f sel_def)
  have res: "getAdjustedBidTime this (Some articles) =
      js_sub (getp this ''articleEndTime'')
        (js_mul (js_mul (JNum (of_int (indexOf j (sortBy c filtered)))) (JNum 2)) (JNum 1000))"
    by (simp add: getAdjustedBidTime_def Let_def filtered_def [symmetric] c_def [symmetric] idx)
  have "getAdjustedBidTime this (Some articles) = JNum (of_int (int (e j) - r * 2000))"
    unfolding res keys rank tt(1) js_mul_rank [OF r_ge r_le]
    using tt(2) r_ge r_le by (rule js_sub_rank)
  then have main: "getAdjustedBidTime (articles ! j) (Some articles) =
           JNum (of_int (int (e j) - 2000 * int (card {i. i < length articles
                   \<and> hasOwnProperty (articles ! i) ''articleEndTime''
                   \<and> \<bar>int (e i) - int (e j)\<bar> < 1000 \<and> a i < a j})))"
    by (simp add: this_def r_def cardeq mult.commute)
  have only: "{i. i < length articles \<and> hasOwnProperty (articles ! i) ''articleEndTime''
                  \<and> \<bar>int (e i) - int (e j)\<bar> < 1000 \<and> a i < a j} = {}"
    if "\<forall>i < length articles.
            hasOwnProperty (articles ! i) ''articleEndTime'' \<and> \<bar>int (e i) - int (e j)\<bar> < 1000
            \<longrightarrow> i = j"
    using that by auto
  show ?thesis
  proof (intro conjI impI)
    show "getAdjustedBidTime (articles ! j) (Some articles) =
           JNum (of_int (int (e j) - 2000 * int (card {i. i < length articles
                   \<and> hasOwnProperty (articles ! i) ''articleEndTime''
                   \<and> \<bar>int (e i) - int (e j)\<bar> < 1000 \<and> a i < a j})))"
      by (rule main)
  next
    assume "\<forall>i < length articles.
            hasOwnProperty (articles ! i) ''articleEndTime'' \<and> \<bar>int (e i) - int (e j)\<bar> < 1000
            \<longrightarrow> i = j"
    then show "getAdjustedBidTime (articles ! j) (Some articles) = JNum (of_nat (e j))"
      using main only by simp
  qed
qed

theorem getAdjustedBidTime_rank_witness:
  "getAdjustedBidTime (co_ending_rows ! 0) (Some co_ending_rows) = JNum (1577979582486 - 4000)
   \<and> getAdjustedBidTime (co_ending_rows ! 1) (Some co_ending_rows) = JNum 1577979582486
   \<and> getAdjustedBidTime (co_ending_rows ! 2) (Some co_ending_rows) = JNum (1577979582486 - 2000)
   \<and> getAdjustedBidTime (co_ending_rows ! 3) (Some co_ending_rows) = JNum 1577979642486
   \<and> card {i. i < length co_ending_rows
              \<and> hasOwnProperty (co_ending_rows ! i) ''articleEndTime''
              \<and> \<bar>int (if i = 3 then 1577979642486 else 1577979582486) - int 1577979582486\<bar> < 1000
              \<and> [300, 100, 200, 400] ! i < (300::nat)} = 2"
proof -
  define e :: "nat \<Rightarrow> nat" where "e = (\<lambda>i. if i = 3 then 1577979642486 else 1577979582486)"
  define a :: "nat \<Rightarrow> nat" where "a = (\<lambda>i. [300, 100, 200, 400] ! i)"
  have r0: "getAdjustedBidTime (co_ending_rows ! 0) (Some co_ending_rows) = JNum (1577979582486 - 4000)"
    by code_simp
  have r1: "getAdjustedBidTime (co_ending_rows ! 1) (Some co_ending_rows) = JNum 1577979582486"
    by code_simp
  have r2: "getAdjustedBidTime (co_ending_rows ! 2) (Some co_ending_rows) = JNum (1577979582486 - 2000)"
    by code_simp
  have r3: "getAdjustedBidTime (co_ending_rows ! 3) (Some co_ending_rows) = JNum 1577979642486"
    by code_simp
  have l: "length co_ending_rows = 4" by (simp add: co_ending_rows_def)
  have four: "(\<forall>i < 4. P i) = (P 0 \<and> P 1 \<and> P 2 \<and> P (3::nat))" for P
    by (auto simp add: less_Suc_eq numeral_eq_Suc)
  have d300: "dec 300 = ''300''" by code_simp
  have d100: "dec 100 = ''100''" by code_simp
  have d200: "dec 200 = ''200''" by code_simp
  have d400: "dec 400 = ''400''" by code_simp
  have j: "0 < length co_ending_rows" by (simp add: l)
  have len: "length co_ending_rows \<le> 2 ^ 32" by (simp add: l)
  have tj: "hasOwnProperty (co_ending_rows ! 0) ''articleEndTime''"
    by (simp add: co_ending_rows_def hasOwnProperty_def)
  have et: "\<forall>i < length co_ending_rows. hasOwnProperty (co_ending_rows ! i) ''articleEndTime''
               \<longrightarrow> getp (co_ending_rows ! i) ''articleEndTime'' = JNum (of_nat (e i)) \<and> e i \<le> 2 ^ 53"
    unfolding l four by (simp add: co_ending_rows_def getp_def e_def)
  have ids: "\<forall>i < length co_ending_rows.
                hasOwnProperty (co_ending_rows ! i) ''articleEndTime'' \<and> \<bar>int (e i) - int (e 0)\<bar> < 1000
                \<longrightarrow> getp (co_ending_rows ! i) ''articleId'' = JStr (dec (a i)) \<and> a i \<le> 2 ^ 53"
    unfolding l four by (simp add: co_ending_rows_def getp_def e_def a_def d300 d100 d200 d400)
  have dist: "\<forall>i < length co_ending_rows. \<forall>i' < length co_ending_rows.
                hasOwnProperty (co_ending_rows ! i) ''articleEndTime'' \<and> \<bar>int (e i) - int (e 0)\<bar> < 1000
                \<and> hasOwnProperty (co_ending_rows ! i') ''articleEndTime'' \<and> \<bar>int (e i') - int (e 0)\<bar> < 1000
                \<and> a i = a i' \<longrightarrow> i = i'"
    unfolding l four by (simp add: a_def)
  have "JNum (1577979582486 - 4000) =
           JNum (of_int (int (e 0) - 2000 * int (card {i. i < length co_ending_rows
                   \<and> hasOwnProperty (co_ending_rows ! i) ''articleEndTime''
                   \<and> \<bar>int (e i) - int (e 0)\<bar> < 1000 \<and> a i < a 0})))"
    using getAdjustedBidTime_rank [OF j len tj et ids dist] r0 by simp
  then have "int (card {i. i < length co_ending_rows
                   \<and> hasOwnProperty (co_ending_rows ! i) ''articleEndTime''
                   \<and> \<bar>int (e i) - int (e 0)\<bar> < 1000 \<and> a i < a 0}) = 2"
    by (simp add: e_def)
  then have c: "card {i. i < length co_ending_rows
              \<and> hasOwnProperty (co_ending_rows ! i) ''articleEndTime''
              \<and> \<bar>int (if i = 3 then 1577979642486 else 1577979582486) - int 1577979582486\<bar> < 1000
              \<and> [300, 100, 200, 400] ! i < (300::nat)} = 2"
    by (simp add: e_def a_def)
  show ?thesis
    using r0 r1 r2 r3 c by simp
qed

end
